theory Spec2Isabelle
  imports Main "HOL-Library.AList" "HOL-Library.Char_ord" "HOL-Library.List_Lexorder"
begin

section \<open>Go values used by the client\<close>

text \<open>
  A Go \<^verbatim>\<open>string\<close> is a sequence of bytes, here a \<^typ>\<open>string\<close> (a list of 8-bit
  characters). Strings are compared byte by byte, lexicographically, which is the order
  that \<^theory_text>\<open>Char_ord\<close> and \<^theory_text>\<open>List_Lexorder\<close> give to \<^typ>\<open>string\<close>.

  \<^verbatim>\<open>url.Values\<close> and \<^verbatim>\<open>http.Header\<close> are both \<^verbatim>\<open>map[string][]string\<close>. A Go map has
  unique keys and no iteration order of its own; it is modelled as an association list
  with distinct keys, the order of the list standing for whatever order a \<^verbatim>\<open>range\<close> over
  the map happens to produce.
\<close>

type_synonym Values = "(string \<times> string list) list"

text \<open>\<^verbatim>\<open>m[key]\<close>: the values under a key, the nil (empty) slice when the key is absent.\<close>

definition lookup :: "Values \<Rightarrow> string \<Rightarrow> string list" where
  "lookup m key = (case map_of m key of None \<Rightarrow> [] | Some vs \<Rightarrow> vs)"

subsection \<open>The part of \<^verbatim>\<open>net/url\<close> that \<^verbatim>\<open>Params\<close> delegates to\<close>

text \<open>
  \<^verbatim>\<open>Params\<close> forwards every method to \<^verbatim>\<open>url.Values\<close> of the Go standard library, which
  is not part of the repository. The definitions below follow the library's source:
  \<^verbatim>\<open>
  func (v Values) Get(key string) string {
      vs := v[key]
      if len(vs) == 0 { return "" }
      return vs[0]
  }
  func (v Values) Set(key, value string) { v[key] = []string{value} }
  func (v Values) Add(key, value string) { v[key] = append(v[key], value) }
  func (v Values) Del(key string)        { delete(v, key) }
  func (v Values) Encode() string {
      if len(v) == 0 { return "" }
      var buf strings.Builder
      keys := make([]string, 0, len(v))
      for k := range v { keys = append(keys, k) }
      sort.Strings(keys)
      for _, k := range keys {
          vs := v[k]
          keyEscaped := QueryEscape(k)
          for _, v := range vs {
              if buf.Len() > 0 { buf.WriteByte('&') }
              buf.WriteString(keyEscaped)
              buf.WriteByte('=')
              buf.WriteString(QueryEscape(v))
          }
      }
      return buf.String()
  }
  \<close>
  \<^verbatim>\<open>QueryEscape\<close> leaves ASCII letters, digits and \<^verbatim>\<open>- _ . ~\<close> alone, writes a space as
  \<^verbatim>\<open>+\<close> and every other byte as \<^verbatim>\<open>%XX\<close> with upper-case hexadecimal digits.
\<close>

definition upperhex :: string where
  "upperhex = ''0123456789ABCDEF''"

definition shouldEscape :: "char \<Rightarrow> bool" where
  "shouldEscape c =
     (if (CHR ''a'' \<le> c \<and> c \<le> CHR ''z'') \<or> (CHR ''A'' \<le> c \<and> c \<le> CHR ''Z'')
          \<or> (CHR ''0'' \<le> c \<and> c \<le> CHR ''9'') then False
      else if c = CHR ''-'' \<or> c = CHR ''_'' \<or> c = CHR ''.'' \<or> c = CHR ''~'' then False
      else True)"

fun QueryEscape :: "string \<Rightarrow> string" where
  "QueryEscape [] = []"
| "QueryEscape (c # s) =
     (if shouldEscape c then
        (if c = CHR '' '' then CHR ''+'' # QueryEscape s
         else CHR ''%'' # upperhex ! (of_char c div 16) # upperhex ! (of_char c mod 16)
                # QueryEscape s)
      else c # QueryEscape s)"

definition Values_Get :: "string \<Rightarrow> Values \<Rightarrow> string" where
  "Values_Get key v = (case lookup v key of [] \<Rightarrow> [] | x # _ \<Rightarrow> x)"


definition Values_Add :: "string \<Rightarrow> string \<Rightarrow> Values \<Rightarrow> Values" where
  "Values_Add key val v = AList.update key (lookup v key @ [val]) v"

definition Values_Del :: "string \<Rightarrow> Values \<Rightarrow> Values" where
  "Values_Del key v = AList.delete key v"

text \<open>One turn of the inner loop of \<^verbatim>\<open>Encode\<close>: the buffer after writing one pair.\<close>

definition writePair :: "string \<Rightarrow> string \<Rightarrow> string \<Rightarrow> string" where
  "writePair keyEscaped val buf =
     (if length buf > 0 then buf @ ''&'' else buf) @ keyEscaped @ ''='' @ QueryEscape val"

definition Values_Encode :: "Values \<Rightarrow> string" where
  "Values_Encode v =
     (if length v = 0 then []
      else fold (\<lambda>k buf. fold (writePair (QueryEscape k)) (lookup v k) buf)
             (sort (map fst v)) [])"

subsection \<open>Params\<close>

text \<open>
  \<^verbatim>\<open>type Params url.Values\<close>. A map value may be nil (the tests pass a nil \<^verbatim>\<open>Params\<close> to
  \<^verbatim>\<open>Analyze\<close>): reading a nil map behaves like reading an empty one, deleting from it does
  nothing, and assigning to an entry of it panics. \<open>None\<close> is the nil map.
\<close>

type_synonym Params = "Values option"

datatype panic = AssignmentToEntryInNilMap

definition Params_Add :: "string \<Rightarrow> string \<Rightarrow> Params \<Rightarrow> panic + Params" where
  "Params_Add key val p =
     (case p of None \<Rightarrow> Inl AssignmentToEntryInNilMap
      | Some v \<Rightarrow> Inr (Some (Values_Add key val v)))"

definition Params_Del :: "string \<Rightarrow> Params \<Rightarrow> Params" where
  "Params_Del key p = (case p of None \<Rightarrow> None | Some v \<Rightarrow> Some (Values_Del key v))"

text \<open>\<^verbatim>\<open>Encode\<close> returns the pair of Go: the string and the error, which is always nil.\<close>

definition Params_Encode :: "Params \<Rightarrow> string \<times> string option" where
  "Params_Encode p = (case p of None \<Rightarrow> ([], None) | Some v \<Rightarrow> (Values_Encode v, None))"

definition Params_Get :: "string \<Rightarrow> Params \<Rightarrow> string" where
  "Params_Get key p = (case p of None \<Rightarrow> [] | Some v \<Rightarrow> Values_Get key v)"


text \<open>\<^verbatim>\<open>p[key]\<close> on a \<^verbatim>\<open>Params\<close>, and the well-formedness of the representation.\<close>

definition Params_values :: "Params \<Rightarrow> string \<Rightarrow> string list" where
  "Params_values p key = (case p of None \<Rightarrow> [] | Some v \<Rightarrow> lookup v key)"

definition Params_keys :: "Params \<Rightarrow> string set" where
  "Params_keys p = (case p of None \<Rightarrow> {} | Some v \<Rightarrow> fst ` set v)"

definition wf_Params :: "Params \<Rightarrow> bool" where
  "wf_Params p = (case p of None \<Rightarrow> True | Some v \<Rightarrow> distinct (map fst v))"

text \<open>A sequence of \<^verbatim>\<open>p.Add(key, value)\<close> calls, stopping at the first panic.\<close>

fun AddAll :: "(string \<times> string) list \<Rightarrow> Params \<Rightarrow> panic + Params" where
  "AddAll [] p = Inr p"
| "AddAll ((key, val) # kvs) p =
     (case Params_Add key val p of Inl e \<Rightarrow> Inl e | Inr p' \<Rightarrow> AddAll kvs p')"

text \<open>Strings joined by \<^verbatim>\<open>&\<close>: the shape of a form-encoded payload.\<close>

fun joinAmp :: "string list \<Rightarrow> string" where
  "joinAmp [] = []"
| "joinAmp [x] = x"
| "joinAmp (x # y # ys) = x @ ''&'' @ joinAmp (y # ys)"

text \<open>The escaped \<^verbatim>\<open>key=value\<close> pairs of the given keys, key by key, each key's values in
  the order in which the map holds them.\<close>

definition encodedPairs :: "Params \<Rightarrow> string list \<Rightarrow> string list" where
  "encodedPairs p ks =
     concat (map (\<lambda>k. map (\<lambda>val. QueryEscape k @ ''='' @ QueryEscape val) (Params_values p k)) ks)"

section \<open>HTTP values\<close>

text \<open>
  \<^verbatim>\<open>http.Header\<close> is a \<^verbatim>\<open>map[string][]string\<close> too. \<^verbatim>\<open>Header.Add\<close> and \<^verbatim>\<open>Header.Get\<close> of
  the Go library work on the canonical form of the key
  (\<^verbatim>\<open>textproto.CanonicalMIMEHeaderKey\<close>): a key made of token bytes only has its first
  letter and every letter after a hyphen in upper case and all others in lower case; any
  other key is left as it is.
  \<^verbatim>\<open>
  func (h MIMEHeader) Add(key, value string) {
      key = CanonicalMIMEHeaderKey(key)
      h[key] = append(h[key], value)
  }
  func (h MIMEHeader) Get(key string) string {
      v := h[CanonicalMIMEHeaderKey(key)]
      if len(v) == 0 { return "" }
      return v[0]
  }
  \<close>
\<close>

type_synonym Header = Values

definition isLower :: "char \<Rightarrow> bool" where
  "isLower c = (CHR ''a'' \<le> c \<and> c \<le> CHR ''z'')"

definition isUpper :: "char \<Rightarrow> bool" where
  "isUpper c = (CHR ''A'' \<le> c \<and> c \<le> CHR ''Z'')"

definition validHeaderFieldByte :: "char \<Rightarrow> bool" where
  "validHeaderFieldByte c =
     (isLower c \<or> isUpper c \<or> (CHR ''0'' \<le> c \<and> c \<le> CHR ''9'') \<or> c \<in> set ''!#$%&*+-.^_`|~''
      \<or> c = CHR 0x27)"

text \<open>The loop of \<^verbatim>\<open>canonicalMIMEHeaderKey\<close>; \<open>upper\<close> says that the next letter is to be
  in upper case (\<^verbatim>\<open>toLower = 'a' - 'A'\<close> is 32).\<close>

fun canonicalize :: "bool \<Rightarrow> string \<Rightarrow> string" where
  "canonicalize upper [] = []"
| "canonicalize upper (c # s) =
     (let c' = (if upper \<and> isLower c then char_of (of_char c - (32::nat))
                else if \<not> upper \<and> isUpper c then char_of (of_char c + (32::nat))
                else c)
      in c' # canonicalize (c' = CHR ''-'') s)"

definition CanonicalMIMEHeaderKey :: "string \<Rightarrow> string" where
  "CanonicalMIMEHeaderKey s =
     (if list_all validHeaderFieldByte s then canonicalize True s else s)"

definition Header_Add :: "string \<Rightarrow> string \<Rightarrow> Header \<Rightarrow> Header" where
  "Header_Add key val h = Values_Add (CanonicalMIMEHeaderKey key) val h"

definition Header_Get :: "string \<Rightarrow> Header \<Rightarrow> string" where
  "Header_Get key h = Values_Get (CanonicalMIMEHeaderKey key) h"

text \<open>
  An outgoing \<^verbatim>\<open>http.Request\<close>, reduced to what \<^verbatim>\<open>doRequest\<close> puts into it, and an
  incoming \<^verbatim>\<open>http.Response\<close>: its body is a stream, and \<open>Response_Body\<close> is what
  \<^verbatim>\<open>ioutil.ReadAll\<close> makes of it, the read error (\<open>Inl\<close>) or all the bytes.
\<close>

record Request =
  Method :: string
  URL :: string
  Request_Header :: Header
  Request_Body :: string

record http_Response =
  StatusCode :: int
  Response_Header :: Header
  Response_Body :: "string + string"

section \<open>The data contracts of the package\<close>

definition apiKeyHeader :: string where
  "apiKeyHeader = ''X-TextRazor-Key''"

definition contentTypeJSON :: string where
  "contentTypeJSON = ''application/json''"

definition contentTypeCSV :: string where
  "contentTypeCSV = ''application/csv''"

definition contentTypeURL :: string where
  "contentTypeURL = ''application/x-www-form-urlencoded''"

definition StatusOK :: int where
  "StatusOK = 200"

text \<open>
  \<^verbatim>\<open>RequestBody\<close> is an interface with the one method \<^verbatim>\<open>Encode() (string, error)\<close>. The
  package implements it by \<^verbatim>\<open>Params\<close> and \<^verbatim>\<open>rawRequest\<close>, whose \<^verbatim>\<open>Encode\<close> never fails,
  and by \<^verbatim>\<open>Dictionary\<close> and \<^verbatim>\<open>DictionaryEntryList\<close>, which return what \<^verbatim>\<open>json.Marshal\<close>
  returns; the tests add \<^verbatim>\<open>faultyBody\<close>, whose \<^verbatim>\<open>Encode\<close> returns an error. An
  implementation outside the first two is given by the pair its \<^verbatim>\<open>Encode\<close> returns.
\<close>

datatype RequestBody =
    ParamsBody Params
  | rawRequest string
  | EncodesTo "string \<times> string option"

fun RequestBody_Encode :: "RequestBody \<Rightarrow> string \<times> string option" where
  "RequestBody_Encode (ParamsBody p) = Params_Encode p"
| "RequestBody_Encode (rawRequest b) = (b, None)"
| "RequestBody_Encode (EncodesTo r) = r"

text \<open>
  \<^verbatim>\<open>HTTPResponse\<close> is the envelope. \<open>Status\<close>, \<open>Headers\<close> and \<open>Body\<close> carry the tag
  \<^verbatim>\<open>json:"-"\<close>, so decoding never touches them. \<open>Ok\<close>, \<open>Error\<close> and \<open>Message\<close> are decoded
  from the body; \<open>Decoded\<close> stands for everything else that decoding fills in: \<^verbatim>\<open>Time\<close>,
  \<^verbatim>\<open>Dictionaries\<close> and, through the \<^verbatim>\<open>Response\<close> field, the fields of the result target.
  It is \<open>None\<close> as long as the body has not been parsed. An envelope lives in the heap of
  the state below and is referred to by its address.
\<close>

record 'j HTTPResponse =
  Status :: int
  Headers :: Header
  Body :: string
  Ok :: bool
  Error :: string
  Message :: string
  Decoded :: "'j option"

text \<open>
  \<^verbatim>\<open>Response\<close> is the interface of the result targets, with the one method
  \<^verbatim>\<open>setHTTPResponse\<close>. \<^verbatim>\<open>EmptyResponse\<close> is an empty struct whose \<^verbatim>\<open>setHTTPResponse\<close> does
  nothing; every other implementation has a field \<^verbatim>\<open>HTTPResponse *HTTPResponse\<close> (with the
  tag \<^verbatim>\<open>json:"-"\<close>) that \<^verbatim>\<open>setHTTPResponse\<close> assigns. The second component of \<open>Result\<close>
  is that field, \<open>None\<close> for the nil pointer.
\<close>

datatype model =
  Analysis | Account | Dictionary | DictionaryEntry | DictionaryEntryList | Category
  | CategoryList

datatype Response = EmptyResponse | Result model "nat option"

fun setHTTPResponse :: "nat \<Rightarrow> Response \<Rightarrow> Response" where
  "setHTTPResponse r EmptyResponse = EmptyResponse"
| "setHTTPResponse r (Result m _) = Result m (Some r)"

text \<open>The back-reference a result target holds, if it has one.\<close>

fun backReference :: "Response \<Rightarrow> nat option" where
  "backReference EmptyResponse = None"
| "backReference (Result m r) = r"

definition DefaultHeaders :: "string \<Rightarrow> Header" where
  "DefaultHeaders contentType = [(''Content-Type'', [contentType])]"

section \<open>The client and the request dispatcher\<close>

text \<open>
  \<open>httpTransport\<close> is the \<^verbatim>\<open>http.RoundTripper\<close> the client was built with: what
  \<^verbatim>\<open>client.Do(req)\<close> returns for a request, the error of the transport (\<open>Inl\<close>) or a
  response.
\<close>

record Client =
  apiKey :: string
  useCompression :: bool
  UseEncryption :: bool
  Endpoint :: string
  SecureEndpoint :: string
  httpTransport :: "Request \<Rightarrow> string + http_Response"

definition NewCustomClient ::
  "string \<Rightarrow> bool \<Rightarrow> bool \<Rightarrow> string \<Rightarrow> string \<Rightarrow> (Request \<Rightarrow> string + http_Response) \<Rightarrow> Client"
where
  "NewCustomClient key compression encryption endpoint secureEndpoint transport =
     \<lparr>apiKey = key, useCompression = compression, UseEncryption = encryption,
      Endpoint = endpoint, SecureEndpoint = secureEndpoint, httpTransport = transport\<rparr>"

text \<open>
  The functions of the Go library that \<^verbatim>\<open>doRequest\<close> calls and that are not modelled
  further are parameters:
  \<^item> \<open>ParseRequestURI\<close>: \<^verbatim>\<open>url.ParseRequestURI\<close>, the error or the parsed URL written
    back as a string (\<^verbatim>\<open>u.String()\<close>);
  \<^item> \<open>NewRequest_error\<close>: the error of \<^verbatim>\<open>http.NewRequest\<close> for a method and a URL, if
    any (an invalid method, for one);
  \<^item> \<open>Unmarshal\<close>: \<^verbatim>\<open>json.Unmarshal\<close> of a body into a fresh envelope whose
    \<^verbatim>\<open>Response\<close> field points to the result target: the error, if any, and the fields
    that can be decoded, as they are afterwards. Every client method passes a target it
    has just created, so that the outcome is a function of the body.
\<close>

record 'j jsonFields =
  json_ok :: bool
  json_error :: string
  json_message :: string
  json_decoded :: 'j

record 'j library =
  ParseRequestURI :: "string \<Rightarrow> string + string"
  NewRequest_error :: "string \<Rightarrow> string \<Rightarrow> string option"
  Unmarshal :: "string \<Rightarrow> string option \<times> 'j jsonFields"

text \<open>
  The errors of the package, one constructor for each \<^verbatim>\<open>fmt.Errorf\<close> of the source, with
  the values that the message is formatted from.
\<close>

datatype error =
    URIParsingFailed string string
  | BodyEncodingFailed string
  | RequestCreationFailed string
  | RequestExecutionFailed string
  | BodyReadFailed string
  | UnexpectedStatusCode int
  | BodyParsingFailed string
  | UnexpectedOkValue bool
  | EitherUrlOrText
  | NoExtractors

text \<open>
  The state that a call works on: the heap of envelopes (an address is an index, a new
  envelope gets the next one) and the calls made so far to the outside, oldest first.
\<close>

datatype call =
    Call_Do Request
  | Call_ReadAll
  | Call_Unmarshal string
  | Call_Close

record 'j state =
  heap :: "'j HTTPResponse list"
  trace :: "call list"

definition called :: "call list \<Rightarrow> 'j state \<Rightarrow> 'j state" where
  "called cs s = s\<lparr>trace := trace s @ cs\<rparr>"

text \<open>
  \<^verbatim>\<open>ParseBody\<close>: \<^verbatim>\<open>json.Unmarshal(r.Body, r)\<close> on the envelope at an address. The
  receiver is a pointer to an allocated envelope; \<^verbatim>\<open>doRequest\<close>, the only caller, passes
  the one it has just allocated.
\<close>

definition ParseBody :: "'j library \<Rightarrow> nat \<Rightarrow> 'j state \<Rightarrow> string option \<times> 'j state" where
  "ParseBody lib a s =
     (let r = heap s ! a;
          (err, v) = Unmarshal lib (Body r);
          r' = r\<lparr>Ok := json_ok v, Error := json_error v, Message := json_message v,
                 Decoded := Some (json_decoded v)\<rparr>
      in (err, called [Call_Unmarshal (Body r)] (s\<lparr>heap := (heap s)[a := r']\<rparr>)))"

text \<open>
  The first half of \<^verbatim>\<open>doRequest\<close>, up to the request that is handed to the transport
  (lines 346 to 377): the endpoint, the URL, the encoded body, the request, its headers.
  \<^verbatim>\<open>http.NewRequest\<close> gives the request an empty header map, and the method \<^verbatim>\<open>GET\<close> when
  the method is empty. With caller-supplied headers, \<^verbatim>\<open>req.Header = headers\<close> makes the
  caller's map the header map of the request, and \<^verbatim>\<open>Add\<close> then writes into that map.
\<close>

definition buildRequest ::
  "'j library \<Rightarrow> Client \<Rightarrow> string \<Rightarrow> string \<Rightarrow> Header option \<Rightarrow> RequestBody option
     \<Rightarrow> error + Request"
where
  "buildRequest lib c path method headers body =
     (let endpointURL = (if UseEncryption c then SecureEndpoint c else Endpoint c) in
      case ParseRequestURI lib (endpointURL @ path) of
        Inl err \<Rightarrow> Inl (URIParsingFailed (endpointURL @ path) err)
      | Inr u \<Rightarrow>
          (case (case body of None \<Rightarrow> ([], None) | Some b \<Rightarrow> RequestBody_Encode b) of
             (_, Some err) \<Rightarrow> Inl (BodyEncodingFailed err)
           | (bodyStr, None) \<Rightarrow>
               (case NewRequest_error lib method u of
                  Some err \<Rightarrow> Inl (RequestCreationFailed err)
                | None \<Rightarrow>
                    (let req = \<lparr>Method = (if method = [] then ''GET'' else method), URL = u,
                                Request_Header = [], Request_Body = bodyStr\<rparr>;
                         req = (case headers of None \<Rightarrow> req
                                | Some h \<Rightarrow> req\<lparr>Request_Header := h\<rparr>)
                     in Inr (req\<lparr>Request_Header :=
                                   Header_Add apiKeyHeader (apiKey c) (Request_Header req)\<rparr>)))))"

text \<open>
  The envelope that \<^verbatim>\<open>doRequest\<close> allocates once the body has been read:
  \<^verbatim>\<open>&HTTPResponse{Status: resp.StatusCode, Headers: resp.Header, Body: respBody, Response: response}\<close>,
  all other fields at their zero values.
\<close>

definition newHTTPResponse :: "http_Response \<Rightarrow> string \<Rightarrow> 'j HTTPResponse" where
  "newHTTPResponse resp respBody =
     \<lparr>Status = StatusCode resp, Headers = Response_Header resp, Body = respBody,
      Ok = False, Error = [], Message = [], Decoded = None\<rparr>"

text \<open>
  \<^verbatim>\<open>doRequest\<close>. The result is the error or the address of the envelope, the result target
  as the call leaves it, and the state. \<^verbatim>\<open>defer resp.Body.Close()\<close> runs when the function
  returns, on every path after the transport has answered.
\<close>

definition doRequest ::
  "'j library \<Rightarrow> Client \<Rightarrow> string \<Rightarrow> string \<Rightarrow> Header option \<Rightarrow> RequestBody option
     \<Rightarrow> Response \<Rightarrow> 'j state \<Rightarrow> (error + nat) \<times> Response \<times> 'j state"
where
  "doRequest lib c path method headers body response s =
     (case buildRequest lib c path method headers body of
        Inl e \<Rightarrow> (Inl e, response, s)
      | Inr req \<Rightarrow>
          (let s = called [Call_Do req] s in
           case httpTransport c req of
             Inl err \<Rightarrow> (Inl (RequestExecutionFailed err), response, s)
           | Inr resp \<Rightarrow>
               (let s = called [Call_ReadAll] s in
                case Response_Body resp of
                  Inl err \<Rightarrow> (Inl (BodyReadFailed err), response, called [Call_Close] s)
                | Inr respBody \<Rightarrow>
                    (let httpResponse = length (heap s);
                         s = s\<lparr>heap := heap s @ [newHTTPResponse resp respBody]\<rparr>;
                         response = setHTTPResponse httpResponse response
                     in if StatusCode resp \<noteq> StatusOK
                        then (Inl (UnexpectedStatusCode (StatusCode resp)), response,
                              called [Call_Close] s)
                        else
                          (case ParseBody lib httpResponse s of
                             (Some err, s) \<Rightarrow>
                               (Inl (BodyParsingFailed err), response, called [Call_Close] s)
                           | (None, s) \<Rightarrow>
                               if \<not> Ok (heap s ! httpResponse)
                               then (Inl (UnexpectedOkValue (Ok (heap s ! httpResponse))),
                                     response, called [Call_Close] s)
                               else (Inr httpResponse, response, called [Call_Close] s))))))"

section \<open>The client methods\<close>

definition MethodGet :: string where
  "MethodGet = ''GET''"

definition MethodPost :: string where
  "MethodPost = ''POST''"

text \<open>
  \<^verbatim>\<open>Analyze\<close> creates its result target, checks the parameters and dispatches. It returns
  the target only when the dispatch succeeds.
\<close>

definition Analyze ::
  "'j library \<Rightarrow> Client \<Rightarrow> Params \<Rightarrow> 'j state \<Rightarrow> (error + Response) \<times> 'j state"
where
  "Analyze lib c params s =
     (let analysis = Result Analysis None in
      if (Params_Get ''text'' params = [] \<and> Params_Get ''url'' params = [])
         \<or> (Params_Get ''text'' params \<noteq> [] \<and> Params_Get ''url'' params \<noteq> [])
      then (Inl EitherUrlOrText, s)
      else if Params_Get ''extractors'' params = [] then (Inl NoExtractors, s)
      else
        (case doRequest lib c ''/'' MethodPost (Some (DefaultHeaders contentTypeURL))
                (Some (ParamsBody params)) analysis s of
           (Inl err, _, s') \<Rightarrow> (Inl err, s')
         | (Inr _, analysis', s') \<Rightarrow> (Inr analysis', s')))"



subsection \<open>The conversion \<^verbatim>\<open>string(int)\<close>\<close>

text \<open>
  \<^verbatim>\<open>GetDictionaryEntries\<close> and \<^verbatim>\<open>GetClassifierCategories\<close> write \<^verbatim>\<open>string(limit)\<close> and
  \<^verbatim>\<open>string(offset)\<close> for two \<^verbatim>\<open>int\<close>s. In Go this conversion yields the UTF-8 encoding of
  the code point with that number, and the encoding of U+FFFD for a number that is not a
  valid code point. The runtime does it so (\<^verbatim>\<open>intstring\<close> and \<^verbatim>\<open>encoderune\<close>):
  \<^verbatim>\<open>
  if int64(rune(v)) != v { v = runeError }
  switch i := uint32(r); {
  case i <= rune1Max:  p[0] = byte(r)
  case i <= rune2Max:  p[0] = t2 | byte(r>>6);  p[1] = tx | byte(r)&maskx
  case i > maxRune, surrogateMin <= i && i <= surrogateMax:
      r = runeError
      fallthrough
  case i <= rune3Max:  p[0] = t3 | byte(r>>12); p[1] = tx | byte(r>>6)&maskx
                       p[2] = tx | byte(r)&maskx
  default:             p[0] = t4 | byte(r>>18); p[1] = tx | byte(r>>12)&maskx
                       p[2] = tx | byte(r>>6)&maskx; p[3] = tx | byte(r)&maskx
  }
  \<close>
  A shift is a division, a mask the remainder; in each case the leading bits
  (\<^verbatim>\<open>t2 = 0xC0\<close>, \<^verbatim>\<open>t3 = 0xE0\<close>, \<^verbatim>\<open>t4 = 0xF0\<close>, \<^verbatim>\<open>tx = 0x80\<close>) lie above the bits they are
  combined with, so that \<^verbatim>\<open>|\<close> adds.
\<close>

definition runeError :: int where
  "runeError = 0xFFFD"

definition byte :: "int \<Rightarrow> char" where
  "byte x = char_of (x mod 256)"

definition encode3 :: "int \<Rightarrow> string" where
  "encode3 r = [byte (0xE0 + r div 4096), byte (0x80 + r div 64 mod 64), byte (0x80 + r mod 64)]"

definition encoderune :: "int \<Rightarrow> string" where
  "encoderune r =
     (let i = r mod 2 ^ 32 in
      if i \<le> 0x7F then [byte r]
      else if i \<le> 0x7FF then [byte (0xC0 + r div 64), byte (0x80 + r mod 64)]
      else if i > 0x10FFFF \<or> (0xD800 \<le> i \<and> i \<le> 0xDFFF) then encode3 runeError
      else if i \<le> 0xFFFF then encode3 r
      else [byte (0xF0 + r div 262144), byte (0x80 + r div 4096 mod 64),
            byte (0x80 + r div 64 mod 64), byte (0x80 + r mod 64)])"

definition intstring :: "int \<Rightarrow> string" where
  "intstring v = encoderune (if v < - (2 ^ 31) \<or> 2 ^ 31 \<le> v then runeError else v)"

definition GetDictionaryEntries ::
  "'j library \<Rightarrow> Client \<Rightarrow> string \<Rightarrow> int \<Rightarrow> int \<Rightarrow> 'j state \<Rightarrow> (error + Response) \<times> 'j state"
where
  "GetDictionaryEntries lib c ID limit offset s =
     (let params = Some [(''limit'', [intstring limit]), (''offset'', [intstring offset])];
          el = Result DictionaryEntryList None in
      case doRequest lib c (''/entities/'' @ ID @ ''/_all'') MethodGet None
             (Some (ParamsBody params)) el s of
        (Inl err, _, s') \<Rightarrow> (Inl err, s')
      | (Inr _, el', s') \<Rightarrow> (Inr el', s'))"

definition GetClassifierCategories ::
  "'j library \<Rightarrow> Client \<Rightarrow> string \<Rightarrow> int \<Rightarrow> int \<Rightarrow> 'j state \<Rightarrow> (error + Response) \<times> 'j state"
where
  "GetClassifierCategories lib c ID limit offset s =
     (let params = Some [(''limit'', [intstring limit]), (''offset'', [intstring offset])];
          cl = Result CategoryList None in
      case doRequest lib c (''/categories/'' @ ID @ ''/_all'') MethodGet None
             (Some (ParamsBody params)) cl s of
        (Inl err, _, s') \<Rightarrow> (Inl err, s')
      | (Inr _, cl', s') \<Rightarrow> (Inr cl', s'))"

subsection \<open>What the conversion is compared with\<close>

text \<open>
  The decimal digit string of an integer (what \<^verbatim>\<open>strconv.Itoa\<close> would give), and the
  reading of a string as the UTF-8 encoding of a single code point.
\<close>

definition digit :: "nat \<Rightarrow> char" where
  "digit d = char_of (48 + int d)"

fun decimal :: "nat \<Rightarrow> string" where
  "decimal n = (if n < 10 then [digit n] else decimal (n div 10) @ [digit (n mod 10)])"

definition Itoa :: "int \<Rightarrow> string" where
  "Itoa i = (if i < 0 then CHR ''-'' # decimal (nat (- i)) else decimal (nat i))"

definition continuation :: "char \<Rightarrow> bool" where
  "continuation c = (128 \<le> (of_char c :: int) \<and> (of_char c :: int) < 192)"

fun codePoint :: "string \<Rightarrow> int option" where
  "codePoint [a] = (if (of_char a :: int) < 128 then Some (of_char a) else None)"
| "codePoint [a, b] =
     (if 192 \<le> (of_char a :: int) \<and> (of_char a :: int) < 224 \<and> continuation b
      then Some ((of_char a - 192) * 64 + (of_char b - 128)) else None)"
| "codePoint [a, b, c] =
     (if 224 \<le> (of_char a :: int) \<and> (of_char a :: int) < 240 \<and> continuation b \<and> continuation c
      then Some ((of_char a - 224) * 4096 + (of_char b - 128) * 64 + (of_char c - 128))
      else None)"
| "codePoint [a, b, c, d] =
     (if 240 \<le> (of_char a :: int) \<and> (of_char a :: int) < 248 \<and> continuation b \<and> continuation c
         \<and> continuation d
      then Some ((of_char a - 240) * 262144 + (of_char b - 128) * 4096 + (of_char c - 128) * 64
                 + (of_char d - 128))
      else None)"
| "codePoint _ = None"

text \<open>The numbers that are code points which UTF-8 encodes: no surrogates.\<close>

definition validRune :: "int \<Rightarrow> bool" where
  "validRune r = (0 \<le> r \<and> r \<le> 0x10FFFF \<and> \<not> (0xD800 \<le> r \<and> r \<le> 0xDFFF))"

section \<open>Fixtures\<close>

text \<open>
  The transport of the tests, \<^verbatim>\<open>fakeTransport.RoundTrip\<close>: it fails when it is told to,
  and otherwise answers with the given status and body and the header
  \<^verbatim>\<open>Content-Type: application/json\<close>; the body \<^verbatim>\<open>FAKE_READ_ISSUE\<close> stands for a stream
  that fails when it is read.
\<close>

definition FakeTransport :: "int \<Rightarrow> string \<Rightarrow> bool \<Rightarrow> Request \<Rightarrow> string + http_Response" where
  "FakeTransport responseStatus responseBody shouldFail req =
     (if shouldFail then Inl ''expected error''
      else Inr \<lparr>StatusCode = responseStatus,
                Response_Header = [(''Content-Type'', [''application/json''])],
                Response_Body = (if responseBody = ''FAKE_READ_ISSUE'' then Inl ''expected error''
                                 else Inr responseBody)\<rparr>)"

text \<open>
  A small instance of the library functions, to run the dispatcher on concrete inputs: a
  URL is accepted when it starts with \<^verbatim>\<open>http\<close>, a method when it consists of token bytes,
  and the decoder knows two bodies, one with \<^verbatim>\<open>"ok": true\<close> and one with \<^verbatim>\<open>"ok": false\<close>,
  and rejects every other.
\<close>

definition okBody :: string where
  "okBody = ''{\"time\":0.004913,\"ok\":true}''"

definition errorResponseBody :: string where
  "errorResponseBody = ''{\"ok\": false, \"response\": {}}''"

definition exampleLibrary :: "unit library" where
  "exampleLibrary =
     \<lparr>ParseRequestURI = (\<lambda>u. if take 4 u = ''http'' then Inr u
                             else Inl ''invalid URI for request''),
      NewRequest_error = (\<lambda>method u. if list_all validHeaderFieldByte method then None
                                      else Some ''invalid method''),
      Unmarshal = (\<lambda>b. if b = okBody
                        then (None, \<lparr>json_ok = True, json_error = [], json_message = [],
                                      json_decoded = ()\<rparr>)
                        else if b = errorResponseBody
                        then (None, \<lparr>json_ok = False, json_error = [], json_message = [],
                                      json_decoded = ()\<rparr>)
                        else (Some ''unexpected end of JSON input'',
                              \<lparr>json_ok = False, json_error = [], json_message = [],
                               json_decoded = ()\<rparr>))\<rparr>"

definition exampleClient :: "(Request \<Rightarrow> string + http_Response) \<Rightarrow> Client" where
  "exampleClient transport =
     NewCustomClient ''1234567890'' True True ''http://api.textrazor.com''
       ''https://api.textrazor.com'' transport"

definition emptyState :: "unit state" where
  "emptyState = \<lparr>heap = [], trace = []\<rparr>"

section \<open>Properties of the parameter map\<close>

lemma lookup_Values_Add:
  "lookup (Values_Add key val v) k = (if k = key then lookup v key @ [val] else lookup v k)"
  by (simp add: lookup_def Values_Add_def update_conv')

lemma AddAll_Some:
  "\<exists>v'. AddAll kvs (Some v) = Inr (Some v') \<and>
     (\<forall>k. lookup v' k = lookup v k @ map snd (filter (\<lambda>kv. fst kv = k) kvs))"
proof (induction kvs arbitrary: v)
  case Nil
  show ?case by simp
next
  case (Cons kv kvs)
  obtain key val where kv: "kv = (key, val)" by (cases kv)
  from Cons.IH [of "Values_Add key val v"] obtain v' where
    v': "AddAll kvs (Some (Values_Add key val v)) = Inr (Some v')"
    and l: "\<forall>k. lookup v' k = lookup (Values_Add key val v) k @ map snd (filter (\<lambda>kv. fst kv = k) kvs)"
    by blast
  show ?case
    using v' l by (simp add: kv Params_Add_def lookup_Values_Add)
qed

lemma map_of_first:
  "map_of kvs k = Some x \<Longrightarrow> \<exists>rest. map snd (filter (\<lambda>kv. fst kv = k) kvs) = x # rest"
  by (induction kvs) (auto split: if_splits)


text \<open>
  C7. A non-empty sequence of \<^verbatim>\<open>Add(key, value)\<close> calls on an allocated \<^verbatim>\<open>Params\<close> map
  never panics; afterwards every key holds the values it held before followed by the values
  added under it, in the order of the calls; for a key that held nothing, \<^verbatim>\<open>Get(key)\<close> is the
  first value added under it; and the map holding only \<^verbatim>\<open>extractors\<close> with the values
  \<^verbatim>\<open>entities\<close>, \<^verbatim>\<open>entailments\<close> encodes to
  \<^verbatim>\<open>extractors=entities&extractors=entailments\<close> with a nil error.
\<close>

theorem Params_Add_Get_Encode:
  "kvs \<noteq> [] \<Longrightarrow>
   (\<exists>v'. AddAll kvs (Some v) = Inr (Some v') \<and>
      (\<forall>key. Params_values (Some v') key
                = Params_values (Some v) key @ map snd (filter (\<lambda>kv. fst kv = key) kvs)) \<and>
      (\<forall>key val. Params_values (Some v) key = [] \<longrightarrow> map_of kvs key = Some val \<longrightarrow>
                 Params_Get key (Some v') = val)) \<and>
   Params_Encode (Some [(''extractors'', [''entities'', ''entailments''])])
     = (''extractors=entities&extractors=entailments'', None)"
proof -
  obtain v' where a: "AddAll kvs (Some v) = Inr (Some v')"
    and l: "\<forall>k. lookup v' k = lookup v k @ map snd (filter (\<lambda>kv. fst kv = k) kvs)"
    using AddAll_Some by blast
  have g: "Params_Get key (Some v') = val"
    if "Params_values (Some v) key = []" "map_of kvs key = Some val" for key val
  proof -
    from map_of_first [OF that(2)] obtain rest where
      "map snd (filter (\<lambda>kv. fst kv = key) kvs) = val # rest" by auto
    with l that(1) show ?thesis
      by (simp add: Params_Get_def Values_Get_def Params_values_def)
  qed
  have e: "Params_Encode (Some [(''extractors'', [''entities'', ''entailments''])])
     = (''extractors=entities&extractors=entailments'', None)"
    by (simp add: Params_Encode_def Values_Encode_def writePair_def lookup_def shouldEscape_def)
  show ?thesis using a l g e by (simp add: Params_values_def)
qed

theorem Params_Add_Get_Encode_witness:
  "[(''text'', ''text1''), (''text'', ''text2'')] \<noteq> [] \<and>
   AddAll [(''text'', ''text1''), (''text'', ''text2'')]
       (Some [(''extractors'', [''entities'', ''entailments''])])
     = Inr (Some [(''extractors'', [''entities'', ''entailments'']), (''text'', [''text1'', ''text2''])]) \<and>
   Params_values (Some [(''extractors'', [''entities'', ''entailments''])]) ''text'' = [] \<and>
   map_of [(''text'', ''text1''), (''text'', ''text2'')] ''text'' = Some ''text1'' \<and>
   Params_Get ''text'' (Some [(''extractors'', [''entities'', ''entailments'']), (''text'', [''text1'', ''text2''])]) = ''text1''"
  using Params_Add_Get_Encode [of "[(''text'', ''text1''), (''text'', ''text2'')]"
      "[(''extractors'', [''entities'', ''entailments''])]"]
  by (simp add: Params_Add_def Values_Add_def lookup_def Params_values_def)

lemma joinAmp_glue: "joinAmp ((a @ ''&'' @ b) # xs) = a @ ''&'' @ joinAmp (b # xs)"
  by (cases xs) simp_all

lemma joinAmp_nonempty: "xs \<noteq> [] \<Longrightarrow> \<forall>x\<in>set xs. x \<noteq> [] \<Longrightarrow> joinAmp xs \<noteq> []"
  by (induction xs rule: joinAmp.induct) simp_all

lemma joinAmp_flatten:
  "\<forall>x\<in>set xs. x \<noteq> [] \<Longrightarrow>
   joinAmp ((if joinAmp xs = [] then [] else [joinAmp xs]) @ ys) = joinAmp (xs @ ys)"
proof (induction xs rule: joinAmp.induct)
  case 1
  show ?case by simp
next
  case (2 x)
  then show ?case by simp
next
  case (3 x y zs)
  have ne: "joinAmp (y # zs) \<noteq> []"
    using 3 by (intro joinAmp_nonempty) simp_all
  have "joinAmp ([joinAmp (y # zs)] @ ys) = joinAmp ((y # zs) @ ys)"
    using 3 ne by simp
  then show ?case
    using joinAmp_glue [of x "joinAmp (y # zs)" ys] by simp
qed

lemma fold_writePair:
  "fold (writePair ke) vs buf
     = joinAmp ((if buf = [] then [] else [buf]) @ map (\<lambda>val. ke @ ''='' @ QueryEscape val) vs)"
proof (induction vs arbitrary: buf)
  case Nil
  show ?case by simp
next
  case (Cons a vs)
  have ne: "writePair ke a buf \<noteq> []" by (simp add: writePair_def)
  show ?case
  proof (cases "buf = []")
    case True
    then show ?thesis using ne by (simp add: Cons.IH) (simp add: writePair_def)
  next
    case False
    then show ?thesis using ne joinAmp_glue [of buf "ke @ ''='' @ QueryEscape a"]
      by (simp add: Cons.IH) (simp add: writePair_def)
  qed
qed

lemma fold_keys:
  "fold (\<lambda>k b. fold (writePair (QueryEscape k)) (lookup v k) b) ks buf
     = joinAmp ((if buf = [] then [] else [buf]) @ encodedPairs (Some v) ks)"
proof (induction ks arbitrary: buf)
  case Nil
  show ?case by (simp add: encodedPairs_def)
next
  case (Cons k ks)
  let ?F = "\<lambda>k b. fold (writePair (QueryEscape k)) (lookup v k) b"
  let ?ps = "map (\<lambda>val. QueryEscape k @ ''='' @ QueryEscape val) (lookup v k)"
  let ?B = "(if buf = [] then [] else [buf]) @ ?ps"
  have all: "\<forall>x\<in>set ?B. x \<noteq> []" by auto
  have "fold ?F (k # ks) buf = fold ?F ks (joinAmp ?B)"
    by (simp only: fold_simps fold_writePair)
  also have "\<dots> = joinAmp ((if joinAmp ?B = [] then [] else [joinAmp ?B]) @ encodedPairs (Some v) ks)"
    by (rule Cons.IH)
  also have "\<dots> = joinAmp (?B @ encodedPairs (Some v) ks)"
    using joinAmp_flatten [OF all] by blast
  also have "?B @ encodedPairs (Some v) ks
      = (if buf = [] then [] else [buf]) @ encodedPairs (Some v) (k # ks)"
    by (simp add: encodedPairs_def Params_values_def)
  finally show ?case .
qed

lemma Values_Encode_pairs:
  "Values_Encode v = joinAmp (encodedPairs (Some v) (sort (map fst v)))"
  by (cases v) (simp_all add: Values_Encode_def fold_keys encodedPairs_def)


lemma encodedPairs_filter:
  "encodedPairs p ks = encodedPairs p (filter (\<lambda>k. Params_values p k \<noteq> []) ks)"
  by (induction ks) (simp_all add: encodedPairs_def)

lemma filter_sorted_list_of_set:
  "finite A \<Longrightarrow> filter P (sorted_list_of_set A) = sorted_list_of_set {x \<in> A. P x}"
proof -
  assume f: "finite A"
  have "sorted (filter P (sorted_list_of_set A))" by (rule sorted_wrt_filter) simp
  moreover have "distinct (filter P (sorted_list_of_set A))" by simp
  moreover have "set (filter P (sorted_list_of_set A)) = {x \<in> A. P x}" using f by auto
  ultimately show ?thesis
    using sorted_list_of_set.idem_if_sorted_distinct by metis
qed

lemma sort_keys:
  "distinct (map fst v) \<Longrightarrow> sort (map fst v) = sorted_list_of_set (fst ` set v)"
  using sorted_list_of_set_sort_remdups [of "map fst v"] by (simp add: distinct_remdups_id)

lemma Params_values_keys: "Params_values p k \<noteq> [] \<Longrightarrow> k \<in> Params_keys p"
  by (cases p) (auto simp: Params_values_def Params_keys_def lookup_def map_of_eq_None_iff
      split: option.splits dest: map_of_SomeD intro: rev_image_eqI)

lemma finite_Params_keys: "finite (Params_keys p)"
  by (cases p) (simp_all add: Params_keys_def)

lemma Params_Encode_sorted:
  assumes "wf_Params p"
  shows "Params_Encode p = (joinAmp (encodedPairs p (sorted_list_of_set (Params_keys p))), None)"
proof (cases p)
  case None
  then show ?thesis by (simp add: Params_Encode_def Params_keys_def encodedPairs_def)
next
  case (Some v)
  then show ?thesis using assms
    by (simp add: Params_Encode_def Params_keys_def Values_Encode_pairs sort_keys wf_Params_def)
qed

lemma Params_Encode_values:
  assumes "wf_Params p"
  shows "Params_Encode p
    = (joinAmp (encodedPairs p (sorted_list_of_set {k. Params_values p k \<noteq> []})), None)"
proof -
  have "{k \<in> Params_keys p. Params_values p k \<noteq> []} = {k. Params_values p k \<noteq> []}"
    using Params_values_keys by blast
  then have "filter (\<lambda>k. Params_values p k \<noteq> []) (sorted_list_of_set (Params_keys p))
      = sorted_list_of_set {k. Params_values p k \<noteq> []}"
    using filter_sorted_list_of_set [OF finite_Params_keys, of "\<lambda>k. Params_values p k \<noteq> []" p]
    by simp
  then show ?thesis
    using Params_Encode_sorted [OF assms] encodedPairs_filter [of p "sorted_list_of_set (Params_keys p)"]
    by simp
qed

lemma encodedPairs_cong:
  "(\<forall>k. Params_values p k = Params_values q k) \<Longrightarrow> encodedPairs p ks = encodedPairs q ks"
  by (simp add: encodedPairs_def)


text \<open>
  C9. \<^verbatim>\<open>Encode\<close> writes the distinct keys in sorted (byte-wise lexicographic) order and,
  within each key, the values in the order the map holds them, joined by \<^verbatim>\<open>&\<close>; two
  \<^verbatim>\<open>Params\<close> that hold the same values under every key encode to the same string, in
  whatever order the keys are stored.
\<close>

theorem Params_Encode_deterministic:
  assumes "wf_Params p" and "wf_Params q"
  shows "Params_Encode p
           = (joinAmp (encodedPairs p (sorted_list_of_set (Params_keys p))), None) \<and>
         ((\<forall>k. Params_values p k = Params_values q k) \<longrightarrow> Params_Encode p = Params_Encode q)"
proof -
  have "Params_Encode p = Params_Encode q" if eq: "\<forall>k. Params_values p k = Params_values q k"
  proof -
    have "{k. Params_values p k \<noteq> []} = {k. Params_values q k \<noteq> []}" using eq by simp
    then show ?thesis
      using Params_Encode_values [OF assms(1)] Params_Encode_values [OF assms(2)]
        encodedPairs_cong [OF eq] by simp
  qed
  then show ?thesis using Params_Encode_sorted [OF assms(1)] by blast
qed

theorem Params_Encode_deterministic_witness:
  "wf_Params (Some [(''text'', [''a b'']), (''extractors'', [''entities'', ''entailments''])]) \<and>
   wf_Params (Some [(''extractors'', [''entities'', ''entailments'']), (''url'', []), (''text'', [''a b''])]) \<and>
   (\<forall>k. Params_values (Some [(''text'', [''a b'']), (''extractors'', [''entities'', ''entailments''])]) k
       = Params_values (Some [(''extractors'', [''entities'', ''entailments'']), (''url'', []), (''text'', [''a b''])]) k) \<and>
   Params_Encode (Some [(''text'', [''a b'']), (''extractors'', [''entities'', ''entailments''])])
     = (''extractors=entities&extractors=entailments&text=a+b'', None) \<and>
   Params_Encode (Some [(''extractors'', [''entities'', ''entailments'']), (''url'', []), (''text'', [''a b''])])
     = (''extractors=entities&extractors=entailments&text=a+b'', None)"
proof -
  let ?p = "Some [(''text'', [''a b'']), (''extractors'', [''entities'', ''entailments''])]"
  let ?q = "Some [(''extractors'', [''entities'', ''entailments'']), (''url'', []), (''text'', [''a b''])]"
  have wp: "wf_Params ?p" by (simp add: wf_Params_def)
  have wq: "wf_Params ?q" by (simp add: wf_Params_def)
  have eq: "\<forall>k. Params_values ?p k = Params_values ?q k"
    by (simp add: Params_values_def lookup_def)
  have ep: "Params_Encode ?p = (''extractors=entities&extractors=entailments&text=a+b'', None)"
    by (simp add: Params_Encode_def Values_Encode_def writePair_def lookup_def shouldEscape_def)
  have "Params_Encode ?p = Params_Encode ?q"
    using Params_Encode_deterministic [OF wp wq] eq by blast
  with ep have eq': "Params_Encode ?q = (''extractors=entities&extractors=entailments&text=a+b'', None)"
    by simp
  show ?thesis
    using wp wq eq ep eq' by blast
qed

section \<open>Properties of the dispatcher\<close>

lemma doRequest_not_built:
  "buildRequest lib c path method headers body = Inl e \<Longrightarrow>
   doRequest lib c path method headers body response s = (Inl e, response, s)"
  by (simp add: doRequest_def)

lemma doRequest_transport_failed:
  "buildRequest lib c path method headers body = Inr req \<Longrightarrow> httpTransport c req = Inl err \<Longrightarrow>
   doRequest lib c path method headers body response s
     = (Inl (RequestExecutionFailed err), response, s\<lparr>trace := trace s @ [Call_Do req]\<rparr>)"
  by (simp add: doRequest_def called_def)

lemma doRequest_read_failed:
  "buildRequest lib c path method headers body = Inr req \<Longrightarrow> httpTransport c req = Inr resp \<Longrightarrow>
   Response_Body resp = Inl err \<Longrightarrow>
   doRequest lib c path method headers body response s
     = (Inl (BodyReadFailed err), response,
        s\<lparr>trace := trace s @ [Call_Do req, Call_ReadAll, Call_Close]\<rparr>)"
  by (simp add: doRequest_def called_def)

lemma doRequest_bad_status:
  "buildRequest lib c path method headers body = Inr req \<Longrightarrow> httpTransport c req = Inr resp \<Longrightarrow>
   Response_Body resp = Inr respBody \<Longrightarrow> StatusCode resp \<noteq> StatusOK \<Longrightarrow>
   doRequest lib c path method headers body response s
     = (Inl (UnexpectedStatusCode (StatusCode resp)), setHTTPResponse (length (heap s)) response,
        s\<lparr>heap := heap s @ [newHTTPResponse resp respBody],
          trace := trace s @ [Call_Do req, Call_ReadAll, Call_Close]\<rparr>)"
  by (simp add: doRequest_def called_def newHTTPResponse_def)

lemma doRequest_parsed:
  "buildRequest lib c path method headers body = Inr req \<Longrightarrow> httpTransport c req = Inr resp \<Longrightarrow>
   Response_Body resp = Inr respBody \<Longrightarrow> StatusCode resp = StatusOK \<Longrightarrow>
   Unmarshal lib respBody = (err, v) \<Longrightarrow>
   doRequest lib c path method headers body response s
     = ((case err of Some e \<Rightarrow> Inl (BodyParsingFailed e)
         | None \<Rightarrow> if json_ok v then Inr (length (heap s)) else Inl (UnexpectedOkValue False)),
        setHTTPResponse (length (heap s)) response,
        s\<lparr>heap := heap s @ [(newHTTPResponse resp respBody)\<lparr>Ok := json_ok v, Error := json_error v,
                      Message := json_message v, Decoded := Some (json_decoded v)\<rparr>],
          trace := trace s @ [Call_Do req, Call_ReadAll, Call_Unmarshal respBody, Call_Close]\<rparr>)"
  by (cases err) (simp_all add: doRequest_def called_def newHTTPResponse_def ParseBody_def Let_def)

lemma canonical_apiKeyHeader: "CanonicalMIMEHeaderKey apiKeyHeader = ''X-Textrazor-Key''"
  by code_simp

lemma lookup_Header_Add:
  "lookup (Header_Add key val h) k
     = (if k = CanonicalMIMEHeaderKey key then lookup h k @ [val] else lookup h k)"
  by (simp add: Header_Add_def lookup_Values_Add)

lemma buildRequest_Header:
  "buildRequest lib c path method headers body = Inr req \<Longrightarrow>
   Request_Header req
     = Header_Add apiKeyHeader (apiKey c) (case headers of None \<Rightarrow> [] | Some h \<Rightarrow> h)"
  by (auto simp: buildRequest_def Let_def split: sum.splits option.splits prod.splits)

lemma example_build:
  "buildRequest exampleLibrary (exampleClient t) ''/'' MethodPost None None
     = Inr \<lparr>Method = ''POST'', URL = ''https://api.textrazor.com/'',
            Request_Header = [(''X-Textrazor-Key'', [''1234567890''])], Request_Body = []\<rparr>"
  by (simp add: buildRequest_def exampleLibrary_def exampleClient_def NewCustomClient_def
      MethodPost_def validHeaderFieldByte_def isLower_def isUpper_def Header_Add_def
      canonical_apiKeyHeader Values_Add_def lookup_def)

lemma example_transport:
  "httpTransport (exampleClient (FakeTransport st b False)) req
     = Inr \<lparr>StatusCode = st, Response_Header = [(''Content-Type'', [''application/json''])],
            Response_Body = (if b = ''FAKE_READ_ISSUE'' then Inl ''expected error'' else Inr b)\<rparr>"
  by (simp add: exampleClient_def NewCustomClient_def FakeTransport_def)

lemma example_unmarshal:
  "Unmarshal exampleLibrary okBody
     = (None, \<lparr>json_ok = True, json_error = [], json_message = [], json_decoded = ()\<rparr>)"
  "Unmarshal exampleLibrary errorResponseBody
     = (None, \<lparr>json_ok = False, json_error = [], json_message = [], json_decoded = ()\<rparr>)"
  by (simp_all add: exampleLibrary_def okBody_def errorResponseBody_def)

lemma bodies_not_faulty: "okBody \<noteq> ''FAKE_READ_ISSUE''" "errorResponseBody \<noteq> ''FAKE_READ_ISSUE''"
  by (simp_all add: okBody_def errorResponseBody_def)

text \<open>
  C4. When the \<^verbatim>\<open>text\<close> and \<^verbatim>\<open>url\<close> parameters are both empty or both non-empty, or the
  \<^verbatim>\<open>extractors\<close> parameter is empty, \<^verbatim>\<open>Analyze\<close> returns one of its two validation errors
  and leaves the state as it was: no call to the transport has been made.
\<close>

theorem Analyze_validation:
  assumes "(Params_Get ''text'' params = [] \<and> Params_Get ''url'' params = [])
           \<or> (Params_Get ''text'' params \<noteq> [] \<and> Params_Get ''url'' params \<noteq> [])
           \<or> Params_Get ''extractors'' params = []"
  shows "(Analyze lib c params s = (Inl EitherUrlOrText, s)
          \<or> Analyze lib c params s = (Inl NoExtractors, s))
         \<and> trace (snd (Analyze lib c params s)) = trace s"
  using assms by (auto simp: Analyze_def)

theorem Analyze_validation_witness:
  "Params_Get ''text'' None = [] \<and> Params_Get ''url'' None = [] \<and>
   Analyze exampleLibrary (exampleClient (FakeTransport 200 okBody False)) None emptyState
     = (Inl EitherUrlOrText, emptyState)"
proof -
  have h: "(Params_Get ''text'' None = [] \<and> Params_Get ''url'' None = [])
           \<or> (Params_Get ''text'' None \<noteq> [] \<and> Params_Get ''url'' None \<noteq> [])
           \<or> Params_Get ''extractors'' None = []"
    by (simp add: Params_Get_def)
  have "Analyze exampleLibrary (exampleClient (FakeTransport 200 okBody False)) None emptyState
          \<noteq> (Inl NoExtractors, emptyState)"
    by (simp add: Analyze_def Params_Get_def)
  with Analyze_validation [OF h, of exampleLibrary "exampleClient (FakeTransport 200 okBody False)" emptyState]
  show ?thesis by (simp add: Params_Get_def)
qed

text \<open>
  C6. When the request body is not nil and its \<^verbatim>\<open>Encode\<close> returns an error,
  \<^verbatim>\<open>doRequest\<close> returns an error of the construction of the request (the encoding error,
  unless the URL had already failed to parse), with the result target and the state
  untouched: the transport is never called.
\<close>

theorem doRequest_encoding_failure:
  assumes "body = Some b" and "RequestBody_Encode b = (str, Some err)"
  shows "(\<exists>e. doRequest lib c path method headers body response s = (Inl e, response, s)
            \<and> (e = BodyEncodingFailed err \<or> (\<exists>u m. e = URIParsingFailed u m)))
         \<and> (\<forall>u. ParseRequestURI lib ((if UseEncryption c then SecureEndpoint c else Endpoint c) @ path) = Inr u
               \<longrightarrow> doRequest lib c path method headers body response s
                     = (Inl (BodyEncodingFailed err), response, s))
         \<and> trace (snd (snd (doRequest lib c path method headers body response s))) = trace s"
  using assms
  by (auto simp: doRequest_def buildRequest_def Let_def split: sum.splits)


theorem doRequest_encoding_failure_witness:
  "RequestBody_Encode (EncodesTo ([], Some ''bad body'')) = ([], Some ''bad body'') \<and>
   doRequest exampleLibrary (exampleClient (FakeTransport 200 [] False)) ''/'' MethodPost None
       (Some (EncodesTo ([], Some ''bad body''))) (Result Analysis None) emptyState
     = (Inl (BodyEncodingFailed ''bad body''), Result Analysis None, emptyState)"
proof -
  have e: "RequestBody_Encode (EncodesTo ([], Some ''bad body'')) = ([], Some ''bad body'')"
    by simp
  have u: "ParseRequestURI exampleLibrary
       ((if UseEncryption (exampleClient (FakeTransport 200 [] False))
         then SecureEndpoint (exampleClient (FakeTransport 200 [] False))
         else Endpoint (exampleClient (FakeTransport 200 [] False))) @ ''/'')
       = Inr ''https://api.textrazor.com/''"
    by (simp add: exampleLibrary_def exampleClient_def NewCustomClient_def)
  from doRequest_encoding_failure [OF refl e, of exampleLibrary
      "exampleClient (FakeTransport 200 [] False)" "''/''" MethodPost None "Result Analysis None"
      emptyState] u
  have "doRequest exampleLibrary (exampleClient (FakeTransport 200 [] False)) ''/'' MethodPost None
       (Some (EncodesTo ([], Some ''bad body''))) (Result Analysis None) emptyState
     = (Inl (BodyEncodingFailed ''bad body''), Result Analysis None, emptyState)"
    by blast
  with e show ?thesis by blast
qed

text \<open>
  C1. \<^verbatim>\<open>doRequest\<close> returns an envelope only when the transport answered with status 200,
  the body was decoded without error and the decoded \<^verbatim>\<open>ok\<close> flag is true; and when the
  status is 200 and the decoded \<^verbatim>\<open>ok\<close> flag is false, it returns an error and no envelope
  (the error about the \<^verbatim>\<open>ok\<close> field when the body was valid).
\<close>

theorem doRequest_success_gate:
  "(doRequest lib c path method headers body response s = (Inr a, response', s') \<longrightarrow>
      (\<exists>req resp respBody.
          buildRequest lib c path method headers body = Inr req \<and>
          httpTransport c req = Inr resp \<and> Response_Body resp = Inr respBody \<and>
          StatusCode resp = 200 \<and>
          fst (Unmarshal lib respBody) = None \<and> json_ok (snd (Unmarshal lib respBody)) \<and>
          a < length (heap s') \<and> Status (heap s' ! a) = 200 \<and> Ok (heap s' ! a))) \<and>
   (buildRequest lib c path method headers body = Inr req \<and>
    httpTransport c req = Inr resp \<and> Response_Body resp = Inr respBody \<and>
    StatusCode resp = 200 \<and> \<not> json_ok (snd (Unmarshal lib respBody)) \<longrightarrow>
      (\<exists>e. fst (doRequest lib c path method headers body response s) = Inl e) \<and>
      (fst (Unmarshal lib respBody) = None \<longrightarrow>
         fst (doRequest lib c path method headers body response s)
           = Inl (UnexpectedOkValue False)))"
proof (intro conjI impI)
  assume r: "doRequest lib c path method headers body response s = (Inr a, response', s')"
  show "\<exists>req resp respBody.
          buildRequest lib c path method headers body = Inr req \<and>
          httpTransport c req = Inr resp \<and> Response_Body resp = Inr respBody \<and>
          StatusCode resp = 200 \<and>
          fst (Unmarshal lib respBody) = None \<and> json_ok (snd (Unmarshal lib respBody)) \<and>
          a < length (heap s') \<and> Status (heap s' ! a) = 200 \<and> Ok (heap s' ! a)"
  proof (cases "buildRequest lib c path method headers body")
    case (Inl e)
    with r doRequest_not_built [OF Inl, of response s] show ?thesis by simp
  next
    case (Inr req)
    show ?thesis
    proof (cases "httpTransport c req")
      case (Inl err)
      with r doRequest_transport_failed [OF Inr Inl, of response s] show ?thesis by simp
    next
      case resp: (Inr resp)
      show ?thesis
      proof (cases "Response_Body resp")
        case (Inl err)
        with r doRequest_read_failed [OF Inr resp Inl, of response s] show ?thesis by simp
      next
        case body: (Inr respBody)
        show ?thesis
        proof (cases "StatusCode resp = StatusOK")
          case False
          with r doRequest_bad_status [OF Inr resp body False, of response s] show ?thesis by simp
        next
          case True
          obtain err v where u: "Unmarshal lib respBody = (err, v)" by (cases "Unmarshal lib respBody")
          from r doRequest_parsed [OF Inr resp body True u, of response s]
          have "err = None \<and> json_ok v \<and> a = length (heap s) \<and>
                s' = s\<lparr>heap := heap s @ [(newHTTPResponse resp respBody)\<lparr>Ok := json_ok v,
                           Error := json_error v, Message := json_message v,
                           Decoded := Some (json_decoded v)\<rparr>],
                        trace := trace s @ [Call_Do req, Call_ReadAll, Call_Unmarshal respBody, Call_Close]\<rparr>"
            by (auto split: option.splits if_splits)
          then show ?thesis
            using Inr resp body True u by (simp add: newHTTPResponse_def StatusOK_def)
        qed
      qed
    qed
  qed
next
  assume h: "buildRequest lib c path method headers body = Inr req \<and>
    httpTransport c req = Inr resp \<and> Response_Body resp = Inr respBody \<and>
    StatusCode resp = 200 \<and> \<not> json_ok (snd (Unmarshal lib respBody))"
  obtain err v where u: "Unmarshal lib respBody = (err, v)" by (cases "Unmarshal lib respBody")
  from h have st: "StatusCode resp = StatusOK" by (simp add: StatusOK_def)
  from h u doRequest_parsed [of lib c path "method" "headers" body req resp respBody err v response s] st
  have d: "fst (doRequest lib c path method headers body response s)
     = (case err of Some e \<Rightarrow> Inl (BodyParsingFailed e) | None \<Rightarrow> Inl (UnexpectedOkValue False))"
    by simp
  show "\<exists>e. fst (doRequest lib c path method headers body response s) = Inl e"
    using d by (cases err) simp_all
  show "fst (doRequest lib c path method headers body response s) = Inl (UnexpectedOkValue False)"
    if "fst (Unmarshal lib respBody) = None"
    using d u that by simp
qed


theorem doRequest_success_gate_witness:
  "fst (doRequest exampleLibrary (exampleClient (FakeTransport 200 okBody False)) ''/'' MethodPost
          None None (Result Analysis None) emptyState) = Inr 0 \<and>
   StatusCode \<lparr>StatusCode = 200, Response_Header = [(''Content-Type'', [''application/json''])],
               Response_Body = Inr okBody\<rparr> = 200 \<and>
   json_ok (snd (Unmarshal exampleLibrary okBody)) \<and>
   \<not> json_ok (snd (Unmarshal exampleLibrary errorResponseBody)) \<and>
   fst (doRequest exampleLibrary (exampleClient (FakeTransport 200 errorResponseBody False)) ''/''
          MethodPost None None (Result Analysis None) emptyState) = Inl (UnexpectedOkValue False)"
proof -
  let ?req = "\<lparr>Method = ''POST'', URL = ''https://api.textrazor.com/'',
            Request_Header = [(''X-Textrazor-Key'', [''1234567890''])], Request_Body = []\<rparr>"
  let ?resp = "\<lambda>b. \<lparr>StatusCode = 200, Response_Header = [(''Content-Type'', [''application/json''])],
            Response_Body = Inr b\<rparr>"
  let ?c = "\<lambda>b. exampleClient (FakeTransport 200 b False)"
  have ok: "fst (doRequest exampleLibrary (?c okBody) ''/'' MethodPost
          None None (Result Analysis None) emptyState) = Inr 0"
    using doRequest_parsed [of exampleLibrary "?c okBody" "''/''" MethodPost None None ?req
        "?resp okBody" okBody None
        "\<lparr>json_ok = True, json_error = [], json_message = [], json_decoded = ()\<rparr>"
        "Result Analysis None" emptyState]
    by (simp add: example_build example_transport bodies_not_faulty example_unmarshal StatusOK_def
        emptyState_def)
  have h: "buildRequest exampleLibrary (?c errorResponseBody) ''/'' MethodPost None None = Inr ?req \<and>
    httpTransport (?c errorResponseBody) ?req = Inr (?resp errorResponseBody) \<and>
    Response_Body (?resp errorResponseBody) = Inr errorResponseBody \<and>
    StatusCode (?resp errorResponseBody) = 200 \<and>
    \<not> json_ok (snd (Unmarshal exampleLibrary errorResponseBody))"
    by (simp add: example_build example_transport bodies_not_faulty example_unmarshal)
  have n: "fst (Unmarshal exampleLibrary errorResponseBody) = None"
    by (simp add: example_unmarshal)
  have "fst (doRequest exampleLibrary (?c errorResponseBody) ''/''
          MethodPost None None (Result Analysis None) emptyState) = Inl (UnexpectedOkValue False)"
    using doRequest_success_gate [of exampleLibrary "?c errorResponseBody" "''/''" MethodPost None None
        "Result Analysis None" emptyState, THEN conjunct2, rule_format, OF h, THEN conjunct2, rule_format, OF n] .
  with ok h show ?thesis by (simp add: example_unmarshal)
qed

text \<open>
  C3, as stated, fails: the body is read before the status is looked at, so a response with
  status 503 whose body cannot be read gives the body-read error, which does not carry the
  status code.
\<close>

theorem doRequest_status_counterexample:
  "httpTransport (exampleClient (FakeTransport 503 ''FAKE_READ_ISSUE'' False))
       \<lparr>Method = ''POST'', URL = ''https://api.textrazor.com/'',
        Request_Header = [(''X-Textrazor-Key'', [''1234567890''])], Request_Body = []\<rparr>
     = Inr \<lparr>StatusCode = 503, Response_Header = [(''Content-Type'', [''application/json''])],
            Response_Body = Inl ''expected error''\<rparr> \<and>
   fst (doRequest exampleLibrary (exampleClient (FakeTransport 503 ''FAKE_READ_ISSUE'' False)) ''/''
          MethodPost None None (Result Analysis None) emptyState)
     = Inl (BodyReadFailed ''expected error'') \<and>
   fst (doRequest exampleLibrary (exampleClient (FakeTransport 503 ''FAKE_READ_ISSUE'' False)) ''/''
          MethodPost None None (Result Analysis None) emptyState)
     \<noteq> Inl (UnexpectedStatusCode 503)"
  using doRequest_read_failed [OF example_build, of "FakeTransport 503 ''FAKE_READ_ISSUE'' False"
      _ "''expected error''" "Result Analysis None" emptyState]
  by (simp add: example_transport)

text \<open>
  C3, amended. For every response whose status code is not 200, \<^verbatim>\<open>doRequest\<close> returns an
  error and never decodes the body (no call to \<^verbatim>\<open>json.Unmarshal\<close> is made). The error
  carries the status code when the body of the response has been read, and is the body-read
  error when the read has failed.
\<close>

theorem doRequest_status_not_OK:
  assumes "buildRequest lib c path method headers body = Inr req"
    and "httpTransport c req = Inr resp"
    and "StatusCode resp \<noteq> 200"
  shows "(\<exists>e. fst (doRequest lib c path method headers body response s) = Inl e) \<and>
         (\<forall>respBody. Response_Body resp = Inr respBody \<longrightarrow>
            fst (doRequest lib c path method headers body response s)
              = Inl (UnexpectedStatusCode (StatusCode resp))) \<and>
         (\<forall>err. Response_Body resp = Inl err \<longrightarrow>
            fst (doRequest lib c path method headers body response s)
              = Inl (BodyReadFailed err)) \<and>
         (\<exists>cs. trace (snd (snd (doRequest lib c path method headers body response s)))
                  = trace s @ cs \<and> (\<forall>b. Call_Unmarshal b \<notin> set cs))"
proof (cases "Response_Body resp")
  case (Inl err)
  show ?thesis
    using doRequest_read_failed [OF assms(1,2) Inl, of response s] Inl by simp
next
  case (Inr respBody)
  from assms(3) have "StatusCode resp \<noteq> StatusOK" by (simp add: StatusOK_def)
  from doRequest_bad_status [OF assms(1,2) Inr this, of response s] Inr
  show ?thesis by simp
qed

theorem doRequest_status_not_OK_witness:
  "StatusCode \<lparr>StatusCode = 503, Response_Header = [(''Content-Type'', [''application/json''])],
               Response_Body = Inr okBody\<rparr> \<noteq> 200 \<and>
   fst (doRequest exampleLibrary (exampleClient (FakeTransport 503 okBody False)) ''/'' MethodPost
          None None (Result Analysis None) emptyState) = Inl (UnexpectedStatusCode 503) \<and>
   StatusCode \<lparr>StatusCode = 503, Response_Header = [(''Content-Type'', [''application/json''])],
               Response_Body = Inl ''expected error''\<rparr> \<noteq> 200 \<and>
   fst (doRequest exampleLibrary (exampleClient (FakeTransport 503 ''FAKE_READ_ISSUE'' False)) ''/''
          MethodPost None None (Result Analysis None) emptyState)
     = Inl (BodyReadFailed ''expected error'')"
proof -
  let ?req = "\<lparr>Method = ''POST'', URL = ''https://api.textrazor.com/'',
        Request_Header = [(''X-Textrazor-Key'', [''1234567890''])], Request_Body = []\<rparr>"
  let ?resp = "\<lparr>StatusCode = 503, Response_Header = [(''Content-Type'', [''application/json''])],
               Response_Body = Inr okBody\<rparr>"
  let ?bad = "\<lparr>StatusCode = 503, Response_Header = [(''Content-Type'', [''application/json''])],
               Response_Body = Inl ''expected error''\<rparr>"
  have t: "httpTransport (exampleClient (FakeTransport 503 okBody False)) ?req = Inr ?resp"
    by (simp add: example_transport bodies_not_faulty)
  have t': "httpTransport (exampleClient (FakeTransport 503 ''FAKE_READ_ISSUE'' False)) ?req
      = Inr ?bad"
    by (simp add: example_transport)
  have n: "StatusCode ?resp \<noteq> 200" by simp
  have n': "StatusCode ?bad \<noteq> 200" by simp
  have b: "Response_Body ?resp = Inr okBody" by simp
  have b': "Response_Body ?bad = Inl ''expected error''" by simp
  have r: "fst (doRequest exampleLibrary (exampleClient (FakeTransport 503 okBody False)) ''/''
          MethodPost None None (Result Analysis None) emptyState)
      = Inl (UnexpectedStatusCode (StatusCode ?resp))"
    using doRequest_status_not_OK [OF example_build t n, of "Result Analysis None" emptyState,
        THEN conjunct2, THEN conjunct1, rule_format, OF b] .
  have r': "fst (doRequest exampleLibrary (exampleClient (FakeTransport 503 ''FAKE_READ_ISSUE'' False))
          ''/'' MethodPost None None (Result Analysis None) emptyState)
      = Inl (BodyReadFailed ''expected error'')"
    using doRequest_status_not_OK [OF example_build t' n', of "Result Analysis None" emptyState,
        THEN conjunct2, THEN conjunct2, THEN conjunct1, rule_format, OF b'] .
  from n n' r r' show ?thesis by simp
qed

text \<open>
  C2, as stated, fails for a result target of type \<^verbatim>\<open>EmptyResponse\<close>: it has no
  back-reference, its \<^verbatim>\<open>setHTTPResponse\<close> does nothing, and on a failed check no envelope is
  returned either, so nothing of the response stays attached to the result.
\<close>

theorem doRequest_backReference_counterexample:
  "fst (doRequest exampleLibrary (exampleClient (FakeTransport 503 okBody False)) ''/'' MethodPost
          None None EmptyResponse emptyState) = Inl (UnexpectedStatusCode 503) \<and>
   backReference (fst (snd (doRequest exampleLibrary (exampleClient (FakeTransport 503 okBody False))
          ''/'' MethodPost None None EmptyResponse emptyState))) = None"
proof -
  let ?resp = "\<lparr>StatusCode = 503, Response_Header = [(''Content-Type'', [''application/json''])],
               Response_Body = Inr okBody\<rparr>"
  have t: "httpTransport (exampleClient (FakeTransport 503 okBody False))
       \<lparr>Method = ''POST'', URL = ''https://api.textrazor.com/'',
        Request_Header = [(''X-Textrazor-Key'', [''1234567890''])], Request_Body = []\<rparr> = Inr ?resp"
    by (simp add: example_transport bodies_not_faulty)
  show ?thesis
    using doRequest_bad_status [OF example_build t, of okBody EmptyResponse emptyState]
    by (simp add: StatusOK_def)
qed

text \<open>
  C2, amended. When the transport call and the body read both succeed, \<^verbatim>\<open>doRequest\<close>
  allocates a new envelope that holds the status code, the headers and the raw body of the
  response, leaves the older envelopes as they were, and calls \<^verbatim>\<open>setHTTPResponse\<close> of the
  result target with it, whatever the later checks give. A target other than
  \<^verbatim>\<open>EmptyResponse\<close> then refers to that envelope; an \<^verbatim>\<open>EmptyResponse\<close> keeps no reference.
\<close>

theorem doRequest_backReference:
  assumes "buildRequest lib c path method headers body = Inr req"
    and "httpTransport c req = Inr resp"
    and "Response_Body resp = Inr respBody"
    and "doRequest lib c path method headers body response s = (r, response', s')"
  shows "response' = setHTTPResponse (length (heap s)) response \<and>
         (\<forall>m b. response = Result m b \<longrightarrow> backReference response' = Some (length (heap s))) \<and>
         (response = EmptyResponse \<longrightarrow> backReference response' = None) \<and>
         length (heap s') = Suc (length (heap s)) \<and>
         take (length (heap s)) (heap s') = heap s \<and>
         Status (heap s' ! length (heap s)) = StatusCode resp \<and>
         Headers (heap s' ! length (heap s)) = Response_Header resp \<and>
         Body (heap s' ! length (heap s)) = respBody"
proof (cases "StatusCode resp = StatusOK")
  case False
  from doRequest_bad_status [OF assms(1-3) False, of response s] assms(4)
  show ?thesis by (auto simp: newHTTPResponse_def)
next
  case True
  obtain err v where u: "Unmarshal lib respBody = (err, v)" by (cases "Unmarshal lib respBody")
  from doRequest_parsed [OF assms(1-3) True u, of response s] assms(4)
  show ?thesis by (auto simp: newHTTPResponse_def)
qed


theorem doRequest_backReference_witness:
  "fst (doRequest exampleLibrary (exampleClient (FakeTransport 200 errorResponseBody False)) ''/''
          MethodPost None None (Result Analysis None) emptyState) = Inl (UnexpectedOkValue False) \<and>
   backReference (fst (snd (doRequest exampleLibrary
          (exampleClient (FakeTransport 200 errorResponseBody False)) ''/''
          MethodPost None None (Result Analysis None) emptyState))) = Some 0 \<and>
   Status (heap (snd (snd (doRequest exampleLibrary
          (exampleClient (FakeTransport 200 errorResponseBody False)) ''/''
          MethodPost None None (Result Analysis None) emptyState))) ! 0) = 200 \<and>
   Body (heap (snd (snd (doRequest exampleLibrary
          (exampleClient (FakeTransport 200 errorResponseBody False)) ''/''
          MethodPost None None (Result Analysis None) emptyState))) ! 0) = errorResponseBody"
proof -
  let ?resp = "\<lparr>StatusCode = 200, Response_Header = [(''Content-Type'', [''application/json''])],
               Response_Body = Inr errorResponseBody\<rparr>"
  let ?D = "doRequest exampleLibrary (exampleClient (FakeTransport 200 errorResponseBody False)) ''/''
          MethodPost None None (Result Analysis None) emptyState"
  have t: "httpTransport (exampleClient (FakeTransport 200 errorResponseBody False))
       \<lparr>Method = ''POST'', URL = ''https://api.textrazor.com/'',
        Request_Header = [(''X-Textrazor-Key'', [''1234567890''])], Request_Body = []\<rparr> = Inr ?resp"
    by (simp add: example_transport bodies_not_faulty)
  have b: "Response_Body ?resp = Inr errorResponseBody" by simp
  have d: "?D = (fst ?D, fst (snd ?D), snd (snd ?D))" by simp
  have e: "fst ?D = Inl (UnexpectedOkValue False)"
    using doRequest_parsed [OF example_build t b _ example_unmarshal(2), of "Result Analysis None"
        emptyState]
    by (simp add: StatusOK_def)
  have l: "length (heap emptyState) = 0" by (simp add: emptyState_def)
  from doRequest_backReference [OF example_build t b d]
  have "backReference (fst (snd ?D)) = Some (length (heap emptyState)) \<and>
        Status (heap (snd (snd ?D)) ! length (heap emptyState)) = StatusCode ?resp \<and>
        Body (heap (snd (snd ?D)) ! length (heap emptyState)) = errorResponseBody"
    by blast
  with e l show ?thesis by simp
qed

text \<open>
  C5, as stated, fails twice. Without caller-supplied headers the request carries the API key
  and nothing else: \<^verbatim>\<open>doRequest\<close> knows no content type and adds no default headers. And a
  value that the caller supplies for the API-key header stays in front of the key of the
  client, so that it is the value \<^verbatim>\<open>Header.Get\<close> reads.
\<close>

theorem buildRequest_headers_counterexample:
  "buildRequest exampleLibrary (exampleClient (FakeTransport 200 okBody False)) ''/'' MethodPost
       None None
     = Inr \<lparr>Method = ''POST'', URL = ''https://api.textrazor.com/'',
            Request_Header = [(''X-Textrazor-Key'', [''1234567890''])], Request_Body = []\<rparr> \<and>
   buildRequest exampleLibrary (exampleClient (FakeTransport 200 okBody False)) ''/'' MethodPost
       (Some [(''X-Textrazor-Key'', [''evil''])]) None
     = Inr \<lparr>Method = ''POST'', URL = ''https://api.textrazor.com/'',
            Request_Header = [(''X-Textrazor-Key'', [''evil'', ''1234567890''])],
            Request_Body = []\<rparr> \<and>
   Header_Get apiKeyHeader [(''X-Textrazor-Key'', [''evil'', ''1234567890''])] = ''evil''"
  by (simp add: example_build)
    (simp add: buildRequest_def exampleLibrary_def exampleClient_def NewCustomClient_def
      MethodPost_def validHeaderFieldByte_def isLower_def isUpper_def Header_Add_def Header_Get_def
      canonical_apiKeyHeader Values_Add_def Values_Get_def lookup_def)

text \<open>
  C5, amended. Without caller-supplied headers the headers of the request are the API key
  alone. With caller-supplied headers these are the headers of the request, with the key of
  the client appended to the values of \<^verbatim>\<open>X-Textrazor-Key\<close> (the canonical form of the name):
  it is the last value there, and the value that \<^verbatim>\<open>Header.Get\<close> reads when the caller
  supplied none. With the headers of \<^verbatim>\<open>DefaultHeaders\<close>, which the client methods pass in,
  the request has that content type and the key of the client.
\<close>

theorem buildRequest_headers:
  assumes "buildRequest lib c path method headers body = Inr req"
  shows "(headers = None \<longrightarrow> Request_Header req = [(''X-Textrazor-Key'', [apiKey c])]) \<and>
         (\<forall>h. headers = Some h \<longrightarrow>
            lookup (Request_Header req) ''X-Textrazor-Key''
              = lookup h ''X-Textrazor-Key'' @ [apiKey c] \<and>
            (\<forall>k. k \<noteq> ''X-Textrazor-Key'' \<longrightarrow> lookup (Request_Header req) k = lookup h k) \<and>
            (lookup h ''X-Textrazor-Key'' = [] \<longrightarrow>
               Header_Get apiKeyHeader (Request_Header req) = apiKey c)) \<and>
         (\<forall>contentType. headers = Some (DefaultHeaders contentType) \<longrightarrow>
            lookup (Request_Header req) ''Content-Type'' = [contentType] \<and>
            Header_Get apiKeyHeader (Request_Header req) = apiKey c)"
proof -
  have hd: "Request_Header req
     = Header_Add apiKeyHeader (apiKey c) (case headers of None \<Rightarrow> [] | Some h \<Rightarrow> h)"
    using buildRequest_Header [OF assms] .
  have a: "Request_Header req = [(''X-Textrazor-Key'', [apiKey c])]" if "headers = None"
    using hd that by (simp add: Header_Add_def canonical_apiKeyHeader Values_Add_def lookup_def)
  have b: "lookup (Request_Header req) k
      = (if k = ''X-Textrazor-Key'' then lookup h k @ [apiKey c] else lookup h k)"
    if "headers = Some h" for h k
    using hd that by (simp add: lookup_Header_Add canonical_apiKeyHeader)
  have g: "Header_Get apiKeyHeader (Request_Header req) = apiKey c"
    if "headers = Some h" "lookup h ''X-Textrazor-Key'' = []" for h
    using b [OF that(1), of "''X-Textrazor-Key''"] that(2)
    by (simp add: Header_Get_def Values_Get_def canonical_apiKeyHeader)
  have dh: "lookup (DefaultHeaders ct) ''X-Textrazor-Key'' = []"
    "lookup (DefaultHeaders ct) ''Content-Type'' = [ct]" for ct
    by (simp_all add: DefaultHeaders_def lookup_def)
  show ?thesis
    using a b g dh by simp
qed


theorem buildRequest_headers_witness:
  "buildRequest exampleLibrary (exampleClient (FakeTransport 200 okBody False)) ''/'' MethodPost
       (Some (DefaultHeaders contentTypeURL)) None
     = Inr \<lparr>Method = ''POST'', URL = ''https://api.textrazor.com/'',
            Request_Header = [(''Content-Type'', [''application/x-www-form-urlencoded'']),
                              (''X-Textrazor-Key'', [''1234567890''])],
            Request_Body = []\<rparr> \<and>
   lookup [(''Content-Type'', [''application/x-www-form-urlencoded'']),
           (''X-Textrazor-Key'', [''1234567890''])] ''Content-Type'' = [contentTypeURL] \<and>
   Header_Get apiKeyHeader [(''Content-Type'', [''application/x-www-form-urlencoded'']),
                            (''X-Textrazor-Key'', [''1234567890''])] = ''1234567890''"
proof -
  let ?c = "exampleClient (FakeTransport 200 okBody False)"
  let ?req = "\<lparr>Method = ''POST'', URL = ''https://api.textrazor.com/'',
            Request_Header = [(''Content-Type'', [''application/x-www-form-urlencoded'']),
                              (''X-Textrazor-Key'', [''1234567890''])],
            Request_Body = []\<rparr>"
  have b: "buildRequest exampleLibrary ?c ''/'' MethodPost (Some (DefaultHeaders contentTypeURL)) None
     = Inr ?req"
    by (simp add: buildRequest_def exampleLibrary_def exampleClient_def NewCustomClient_def
      MethodPost_def validHeaderFieldByte_def isLower_def isUpper_def Header_Add_def
      canonical_apiKeyHeader Values_Add_def lookup_def DefaultHeaders_def contentTypeURL_def)
  have k: "apiKey ?c = ''1234567890''" by (simp add: exampleClient_def NewCustomClient_def)
  from buildRequest_headers [OF b, THEN conjunct2, THEN conjunct2, rule_format, OF refl]
  have "lookup (Request_Header ?req) ''Content-Type'' = [contentTypeURL] \<and>
        Header_Get apiKeyHeader (Request_Header ?req) = apiKey ?c" .
  with b k show ?thesis by simp
qed








section \<open>Properties of the integer parameters\<close>

lemma encoderune_runeError: "encoderune runeError = encode3 runeError"
  by (simp add: encoderune_def runeError_def)

lemma intstring_cases:
  "intstring n =
     (if 0 \<le> n \<and> n \<le> 0x7F then [byte n]
      else if 0x80 \<le> n \<and> n \<le> 0x7FF then [byte (0xC0 + n div 64), byte (0x80 + n mod 64)]
      else if n < 0 \<or> 0x10FFFF < n \<or> (0xD800 \<le> n \<and> n \<le> 0xDFFF) then encode3 runeError
      else if n \<le> 0xFFFF then encode3 n
      else [byte (0xF0 + n div 262144), byte (0x80 + n div 4096 mod 64),
            byte (0x80 + n div 64 mod 64), byte (0x80 + n mod 64)])"
proof -
  consider "n < - (2 ^ 31) \<or> 2 ^ 31 \<le> n" | "- (2 ^ 31) \<le> n \<and> n < 0" | "0 \<le> n \<and> n < 2 ^ 31"
    by linarith
  then show ?thesis
  proof cases
    case 1
    then show ?thesis by (auto simp: intstring_def encoderune_runeError)
  next
    case 2
    then have m: "n mod 4294967296 = n + 4294967296"
      using mod_add_self2 [of n 4294967296] mod_pos_pos_trivial [of "n + 4294967296" 4294967296]
      by simp
    from 2 have "intstring n = encoderune n" by (simp add: intstring_def)
    also have "\<dots> = encode3 runeError"
      using 2 by (simp add: encoderune_def m Let_def)
    finally show ?thesis using 2 by simp
  next
    case 3
    then have m: "n mod 4294967296 = n" by simp
    from 3 have "intstring n = encoderune n" by (simp add: intstring_def)
    then show ?thesis using 3 by (simp add: encoderune_def m Let_def)
  qed
qed

lemma of_char_byte: "(of_char (byte x) :: int) = x mod 256"
  by (simp add: byte_def)

lemma div_bounds:
  fixes n :: int
  assumes "0 \<le> n" "n \<le> m" "0 < b"
  shows "0 \<le> n div b" "n div b \<le> m div b"
  using assms by (simp_all add: pos_imp_zdiv_nonneg_iff zdiv_mono1)

lemma split64: "(n::int) = n div 64 * 64 + n mod 64"
  by simp

lemma split4096: "(n::int) = n div 4096 * 4096 + n div 64 mod 64 * 64 + n mod 64"
proof -
  have "n div 4096 = n div 64 div 64"
    using zdiv_zmult2_eq [of 64 n 64] by simp
  then have "n div 64 = n div 4096 * 64 + n div 64 mod 64"
    by simp
  then show ?thesis using split64 [of n] by linarith
qed

lemma split262144:
  "(n::int) = n div 262144 * 262144 + n div 4096 mod 64 * 4096 + n div 64 mod 64 * 64 + n mod 64"
proof -
  have "n div 262144 = n div 4096 div 64"
    using zdiv_zmult2_eq [of 64 n 4096] by simp
  then have "n div 4096 = n div 262144 * 64 + n div 4096 mod 64"
    by simp
  then show ?thesis using split4096 [of n] by linarith
qed


lemma mod64_bounds: "0 \<le> (x::int) mod 64" "(x::int) mod 64 < 64"
  by simp_all

lemma codePoint_1:
  assumes "0 \<le> n" "n \<le> 0x7F"
  shows "codePoint [byte n] = Some n"
  using assms by (simp add: of_char_byte)

lemma codePoint_2:
  assumes "0x80 \<le> n" "n \<le> 0x7FF"
  shows "codePoint [byte (0xC0 + n div 64), byte (0x80 + n mod 64)] = Some n"
proof -
  have a: "0 \<le> n div 64" "n div 64 \<le> 31"
    using div_bounds [of n 2047 64] assms by simp_all
  have b: "(0xC0 + n div 64) mod 256 = 0xC0 + n div 64"
    using a by simp
  have c: "(0x80 + n mod 64) mod 256 = 0x80 + n mod 64"
    using mod64_bounds [of n] by simp
  show ?thesis
    using a mod64_bounds [of n] split64 [of n]
    by (simp add: of_char_byte continuation_def b c)
qed


lemma continuation_byte: "continuation (byte (0x80 + x mod 64))"
proof -
  have "(0x80 + x mod 64) mod 256 = 0x80 + x mod 64"
    using mod64_bounds [of x] by simp
  then show ?thesis
    using mod64_bounds [of x] by (simp add: continuation_def of_char_byte)
qed

lemma of_char_continuation: "(of_char (byte (0x80 + x mod 64)) :: int) = 128 + x mod 64"
proof -
  have "(0x80 + x mod 64) mod 256 = 0x80 + x mod 64"
    using mod64_bounds [of x] by simp
  then show ?thesis by (simp add: of_char_byte)
qed

lemma codePoint_3:
  assumes "0x800 \<le> n" "n \<le> 0xFFFF"
  shows "codePoint (encode3 n) = Some n"
proof -
  have a: "0 \<le> n div 4096" "n div 4096 \<le> 15"
    using div_bounds [of n 65535 4096] assms by simp_all
  then have b: "(of_char (byte (0xE0 + n div 4096)) :: int) = 0xE0 + n div 4096"
    by (simp add: of_char_byte)
  have "codePoint (encode3 n)
      = Some (n div 4096 * 4096 + n div 64 mod 64 * 64 + n mod 64)"
    unfolding encode3_def codePoint.simps
    using a by (simp add: b continuation_byte of_char_continuation)
  then show ?thesis using split4096 [of n] by simp
qed

lemma codePoint_4:
  assumes "0x10000 \<le> n" "n \<le> 0x10FFFF"
  shows "codePoint [byte (0xF0 + n div 262144), byte (0x80 + n div 4096 mod 64),
            byte (0x80 + n div 64 mod 64), byte (0x80 + n mod 64)] = Some n"
proof -
  have a: "0 \<le> n div 262144" "n div 262144 \<le> 4"
    using div_bounds [of n 1114111 262144] assms by simp_all
  then have b: "(of_char (byte (0xF0 + n div 262144)) :: int) = 0xF0 + n div 262144"
    by (simp add: of_char_byte)
  have "codePoint [byte (0xF0 + n div 262144), byte (0x80 + n div 4096 mod 64),
            byte (0x80 + n div 64 mod 64), byte (0x80 + n mod 64)]
      = Some (n div 262144 * 262144 + n div 4096 mod 64 * 4096 + n div 64 mod 64 * 64 + n mod 64)"
    unfolding codePoint.simps
    using a by (simp add: b continuation_byte of_char_continuation)
  then show ?thesis using split262144 [of n] by simp
qed

lemma codePoint_intstring:
  assumes "validRune n"
  shows "codePoint (intstring n) = Some n"
proof -
  from assms have v: "0 \<le> n" "n \<le> 0x10FFFF" "\<not> (0xD800 \<le> n \<and> n \<le> 0xDFFF)"
    by (simp_all add: validRune_def)
  consider "n \<le> 0x7F" | "0x80 \<le> n \<and> n \<le> 0x7FF" | "0x800 \<le> n \<and> n \<le> 0xFFFF" | "0x10000 \<le> n"
    by linarith
  then show ?thesis
  proof cases
    case 1
    then show ?thesis using v codePoint_1 [of n] by (simp add: intstring_cases)
  next
    case 2
    then show ?thesis using codePoint_2 [of n] by (simp add: intstring_cases)
  next
    case 3
    then show ?thesis using v codePoint_3 [of n] by (auto simp: intstring_cases)
  next
    case 4
    then show ?thesis using v codePoint_4 [of n] by (auto simp: intstring_cases)
  qed
qed

lemma intstring_invalid: "\<not> validRune n \<Longrightarrow> intstring n = [CHR 0xEF, CHR 0xBF, CHR 0xBD]"
proof -
  assume "\<not> validRune n"
  then have "n < 0 \<or> 0x10FFFF < n \<or> (0xD800 \<le> n \<and> n \<le> 0xDFFF)"
    by (auto simp: validRune_def)
  then have "intstring n = encode3 runeError"
    by (auto simp: intstring_cases)
  also have "\<dots> = [CHR 0xEF, CHR 0xBF, CHR 0xBD]"
    by code_simp
  finally show ?thesis .
qed

lemma decimal_head:
  "decimal m \<noteq> [] \<and> (of_char (hd (decimal m)) :: int) < 128"
proof (induction m rule: decimal.induct)
  case (1 m)
  show ?case
  proof (cases "m < 10")
    case True
    then show ?thesis by (simp add: digit_def)
  next
    case False
    with 1 show ?thesis by (subst (1 2) decimal.simps) simp
  qed
qed

lemma decimal_long: "10 \<le> m \<Longrightarrow> 2 \<le> length (decimal m)"
proof -
  assume m: "10 \<le> m"
  have "decimal (m div 10) \<noteq> []" using decimal_head by blast
  then have "1 \<le> length (decimal (m div 10))" by (cases "decimal (m div 10)") simp_all
  then show ?thesis using m by (subst decimal.simps) simp
qed

lemma Itoa_head: "Itoa n \<noteq> [] \<and> (of_char (hd (Itoa n)) :: int) < 128"
  using decimal_head [of "nat n"] by (simp add: Itoa_def)

lemma lead_byte:
  assumes "0 \<le> x" "x \<le> 31" "192 \<le> t" "t \<le> 224"
  shows "128 \<le> (of_char (byte (t + x)) :: int)"
proof -
  have "(t + x) mod 256 = t + x" using assms by simp
  then show ?thesis using assms by (simp add: of_char_byte)
qed

lemma encode3_head:
  assumes "0 \<le> n" "n \<le> 0xFFFF"
  shows "128 \<le> (of_char (hd (encode3 n)) :: int)"
proof -
  have "0 \<le> n div 4096" "n div 4096 \<le> 15"
    using div_bounds [of n 65535 4096] assms by simp_all
  then show ?thesis using lead_byte [of "n div 4096" 224] by (simp add: encode3_def)
qed

lemma intstring_head:
  assumes "\<not> (0 \<le> n \<and> n \<le> 0x7F)"
  shows "128 \<le> (of_char (hd (intstring n)) :: int)"
proof -
  consider "0x80 \<le> n \<and> n \<le> 0x7FF"
    | "n < 0 \<or> 0x10FFFF < n \<or> (0xD800 \<le> n \<and> n \<le> 0xDFFF)"
    | "0x800 \<le> n \<and> n \<le> 0xFFFF \<and> \<not> (0xD800 \<le> n \<and> n \<le> 0xDFFF)"
    | "0x10000 \<le> n \<and> n \<le> 0x10FFFF"
    using assms by linarith
  then show ?thesis
  proof cases
    case 1
    then have "0 \<le> n div 64" "n div 64 \<le> 31"
      using div_bounds [of n 2047 64] by simp_all
    then show ?thesis using 1 lead_byte [of "n div 64" 192] by (simp add: intstring_cases)
  next
    case 2
    then have "intstring n = encode3 runeError" by (auto simp: intstring_cases)
    then show ?thesis using encode3_head [of runeError] by (simp add: runeError_def)
  next
    case 3
    then have "intstring n = encode3 n" by (auto simp: intstring_cases)
    then show ?thesis using 3 encode3_head [of n] by simp
  next
    case 4
    then have "0 \<le> n div 262144" "n div 262144 \<le> 4"
      using div_bounds [of n 1114111 262144] by simp_all
    then have "128 \<le> (of_char (byte (240 + n div 262144)) :: int)"
      by (simp add: of_char_byte)
    then show ?thesis using 4 by (simp add: intstring_cases)
  qed
qed

lemma intstring_not_decimal: "intstring n \<noteq> Itoa n"
proof (cases "0 \<le> n \<and> n \<le> 0x7F")
  case False
  then show ?thesis using intstring_head [of n] Itoa_head [of n] by force
next
  case True
  then have s: "intstring n = [byte n]" by (simp add: intstring_cases)
  show ?thesis
  proof (cases "n < 10")
    case True
    then have "Itoa n = [digit (nat n)]" using \<open>0 \<le> n \<and> n \<le> 0x7F\<close> by (simp add: Itoa_def)
    moreover have "(of_char (digit (nat n)) :: int) = 48 + n"
      using True \<open>0 \<le> n \<and> n \<le> 0x7F\<close> by (simp add: digit_def)
    moreover have "(of_char (byte n) :: int) = n"
      using \<open>0 \<le> n \<and> n \<le> 0x7F\<close> by (simp add: of_char_byte)
    ultimately show ?thesis using s by auto
  next
    case False
    then have "2 \<le> length (Itoa n)"
      using decimal_long [of "nat n"] by (simp add: Itoa_def)
    moreover have "length (intstring n) = 1" using s by simp
    ultimately have "length (intstring n) \<noteq> length (Itoa n)" by linarith
    then show ?thesis by auto
  qed
qed

lemma Params_Encode_limit_offset:
  "Params_Encode (Some [(''limit'', [a]), (''offset'', [b])])
     = (''limit='' @ QueryEscape a @ ''&offset='' @ QueryEscape b, None)"
proof -
  have k: "QueryEscape ''limit'' = ''limit''" "QueryEscape ''offset'' = ''offset''"
    by (simp_all add: shouldEscape_def)
  have s: "sort [''limit'', ''offset''] = [''limit'', ''offset'']"
    by code_simp
  show ?thesis
    by (simp add: Params_Encode_def Values_Encode_def s k writePair_def lookup_def shouldEscape_def)
qed

lemma doRequest_trace:
  assumes "buildRequest lib c path method headers body = Inr req"
  shows "\<exists>cs. trace (snd (snd (doRequest lib c path method headers body response s)))
            = trace s @ Call_Do req # cs"
proof (cases "httpTransport c req")
  case (Inl err)
  then show ?thesis using doRequest_transport_failed [OF assms Inl, of response s] by simp
next
  case resp: (Inr resp)
  show ?thesis
  proof (cases "Response_Body resp")
    case (Inl err)
    then show ?thesis using doRequest_read_failed [OF assms resp Inl, of response s] by simp
  next
    case rb: (Inr respBody)
    show ?thesis
    proof (cases "StatusCode resp = StatusOK")
      case False
      then show ?thesis using doRequest_bad_status [OF assms resp rb False, of response s] by simp
    next
      case True
      obtain err v where u: "Unmarshal lib respBody = (err, v)" by (cases "Unmarshal lib respBody")
      show ?thesis using doRequest_parsed [OF assms resp rb True u, of response s] by simp
    qed
  qed
qed

lemma buildRequest_list:
  assumes "ParseRequestURI lib ((if UseEncryption c then SecureEndpoint c else Endpoint c) @ path)
             = Inr u"
    and "NewRequest_error lib MethodGet u = None"
  shows "buildRequest lib c path MethodGet None
           (Some (ParamsBody (Some [(''limit'', [a]), (''offset'', [b])])))
         = Inr \<lparr>Method = ''GET'', URL = u, Request_Header = [(''X-Textrazor-Key'', [apiKey c])],
                Request_Body = ''limit='' @ QueryEscape a @ ''&offset='' @ QueryEscape b\<rparr>"
  using assms
  by (simp add: buildRequest_def Params_Encode_limit_offset Header_Add_def canonical_apiKeyHeader
      Values_Add_def lookup_def MethodGet_def)

lemma GetDictionaryEntries_state:
  "snd (GetDictionaryEntries lib c ID limit offset s)
     = snd (snd (doRequest lib c (''/entities/'' @ ID @ ''/_all'') MethodGet None
          (Some (ParamsBody (Some [(''limit'', [intstring limit]), (''offset'', [intstring offset])])))
          (Result DictionaryEntryList None) s))"
  by (simp add: GetDictionaryEntries_def split: prod.splits sum.splits)

lemma GetClassifierCategories_state:
  "snd (GetClassifierCategories lib c ID limit offset s)
     = snd (snd (doRequest lib c (''/categories/'' @ ID @ ''/_all'') MethodGet None
          (Some (ParamsBody (Some [(''limit'', [intstring limit]), (''offset'', [intstring offset])])))
          (Result CategoryList None) s))"
  by (simp add: GetClassifierCategories_def split: prod.splits sum.splits)

lemma codePoint_replacement: "codePoint [CHR 0xEF, CHR 0xBF, CHR 0xBD] = Some runeError"
  by code_simp

text \<open>
  C8, as stated, fails for an integer that is not a valid code point: \<^verbatim>\<open>string(-1)\<close> is the
  encoding of U+FFFD, not of a code point with the number \<open>-1\<close>, and that is what
  \<^verbatim>\<open>GetDictionaryEntries\<close> sends.
\<close>

theorem list_parameters_counterexample:
  "intstring (- 1) = [CHR 0xEF, CHR 0xBF, CHR 0xBD] \<and>
   codePoint (intstring (- 1)) = Some 0xFFFD \<and>
   codePoint (intstring (- 1)) \<noteq> Some (- 1) \<and>
   trace (snd (GetDictionaryEntries exampleLibrary (exampleClient (FakeTransport 200 okBody False))
                 ''d'' (- 1) 0 emptyState))
     = [Call_Do \<lparr>Method = ''GET'', URL = ''https://api.textrazor.com/entities/d/_all'',
                  Request_Header = [(''X-Textrazor-Key'', [''1234567890''])],
                  Request_Body = ''limit=%EF%BF%BD&offset=%00''\<rparr>,
        Call_ReadAll, Call_Unmarshal okBody, Call_Close]"
  by code_simp

text \<open>
  C8, amended. \<^verbatim>\<open>GetDictionaryEntries\<close> and \<^verbatim>\<open>GetClassifierCategories\<close> send, as the
  body of the request, the \<^verbatim>\<open>limit\<close> and \<^verbatim>\<open>offset\<close> parameters with the values \<^verbatim>\<open>string(limit)\<close>
  and \<^verbatim>\<open>string(offset)\<close> (escaped for the form encoding). Such a value is the UTF-8 encoding
  of the single code point whose number is the integer when the integer is a valid code
  point (0 to 0x10FFFF, no surrogate), and of U+FFFD otherwise; it is never the decimal digit
  string of the integer.
\<close>

theorem list_parameters_string_of_int:
  "(ParseRequestURI lib ((if UseEncryption c then SecureEndpoint c else Endpoint c)
       @ ''/entities/'' @ ID @ ''/_all'') = Inr u \<and> NewRequest_error lib MethodGet u = None \<longrightarrow>
      (\<exists>cs. trace (snd (GetDictionaryEntries lib c ID limit offset s))
         = trace s @ Call_Do \<lparr>Method = ''GET'', URL = u,
               Request_Header = [(''X-Textrazor-Key'', [apiKey c])],
               Request_Body = ''limit='' @ QueryEscape (intstring limit)
                                @ ''&offset='' @ QueryEscape (intstring offset)\<rparr> # cs)) \<and>
   (ParseRequestURI lib ((if UseEncryption c then SecureEndpoint c else Endpoint c)
       @ ''/categories/'' @ ID @ ''/_all'') = Inr u' \<and> NewRequest_error lib MethodGet u' = None \<longrightarrow>
      (\<exists>cs. trace (snd (GetClassifierCategories lib c ID limit offset s))
         = trace s @ Call_Do \<lparr>Method = ''GET'', URL = u',
               Request_Header = [(''X-Textrazor-Key'', [apiKey c])],
               Request_Body = ''limit='' @ QueryEscape (intstring limit)
                                @ ''&offset='' @ QueryEscape (intstring offset)\<rparr> # cs)) \<and>
   codePoint (intstring limit) = Some (if validRune limit then limit else runeError) \<and>
   codePoint (intstring offset) = Some (if validRune offset then offset else runeError) \<and>
   intstring limit \<noteq> Itoa limit \<and> intstring offset \<noteq> Itoa offset"
proof -
  have a: "\<exists>cs. trace (snd (GetDictionaryEntries lib c ID limit offset s))
         = trace s @ Call_Do \<lparr>Method = ''GET'', URL = u,
               Request_Header = [(''X-Textrazor-Key'', [apiKey c])],
               Request_Body = ''limit='' @ QueryEscape (intstring limit)
                                @ ''&offset='' @ QueryEscape (intstring offset)\<rparr> # cs"
    if "ParseRequestURI lib ((if UseEncryption c then SecureEndpoint c else Endpoint c)
       @ ''/entities/'' @ ID @ ''/_all'') = Inr u \<and> NewRequest_error lib MethodGet u = None"
    using doRequest_trace [OF buildRequest_list, of lib c "''/entities/'' @ ID @ ''/_all''" u
        "intstring limit" "intstring offset" "Result DictionaryEntryList None" s] that
    by (simp add: GetDictionaryEntries_state)
  have b: "\<exists>cs. trace (snd (GetClassifierCategories lib c ID limit offset s))
         = trace s @ Call_Do \<lparr>Method = ''GET'', URL = u',
               Request_Header = [(''X-Textrazor-Key'', [apiKey c])],
               Request_Body = ''limit='' @ QueryEscape (intstring limit)
                                @ ''&offset='' @ QueryEscape (intstring offset)\<rparr> # cs"
    if "ParseRequestURI lib ((if UseEncryption c then SecureEndpoint c else Endpoint c)
       @ ''/categories/'' @ ID @ ''/_all'') = Inr u' \<and> NewRequest_error lib MethodGet u' = None"
    using doRequest_trace [OF buildRequest_list, of lib c "''/categories/'' @ ID @ ''/_all''" u'
        "intstring limit" "intstring offset" "Result CategoryList None" s] that
    by (simp add: GetClassifierCategories_state)
  have d: "codePoint (intstring n) = Some (if validRune n then n else runeError)" for n
    using codePoint_intstring [of n] intstring_invalid [of n] codePoint_replacement by simp
  show ?thesis
    using a b d intstring_not_decimal by blast
qed

theorem list_parameters_string_of_int_witness:
  "ParseRequestURI exampleLibrary
       ((if UseEncryption (exampleClient (FakeTransport 200 okBody False))
         then SecureEndpoint (exampleClient (FakeTransport 200 okBody False))
         else Endpoint (exampleClient (FakeTransport 200 okBody False)))
        @ ''/entities/'' @ ''d'' @ ''/_all'') = Inr ''https://api.textrazor.com/entities/d/_all'' \<and>
   NewRequest_error exampleLibrary MethodGet ''https://api.textrazor.com/entities/d/_all'' = None \<and>
   (\<exists>cs. trace (snd (GetDictionaryEntries exampleLibrary
                         (exampleClient (FakeTransport 200 okBody False)) ''d'' 20 0 emptyState))
      = Call_Do \<lparr>Method = ''GET'', URL = ''https://api.textrazor.com/entities/d/_all'',
                   Request_Header = [(''X-Textrazor-Key'', [''1234567890''])],
                   Request_Body = ''limit=%14&offset=%00''\<rparr> # cs) \<and>
   ParseRequestURI exampleLibrary
       ((if UseEncryption (exampleClient (FakeTransport 200 okBody False))
         then SecureEndpoint (exampleClient (FakeTransport 200 okBody False))
         else Endpoint (exampleClient (FakeTransport 200 okBody False)))
        @ ''/categories/'' @ ''c'' @ ''/_all'') = Inr ''https://api.textrazor.com/categories/c/_all'' \<and>
   NewRequest_error exampleLibrary MethodGet ''https://api.textrazor.com/categories/c/_all'' = None \<and>
   (\<exists>cs. trace (snd (GetClassifierCategories exampleLibrary
                         (exampleClient (FakeTransport 200 okBody False)) ''c'' 20 0 emptyState))
      = Call_Do \<lparr>Method = ''GET'', URL = ''https://api.textrazor.com/categories/c/_all'',
                   Request_Header = [(''X-Textrazor-Key'', [''1234567890''])],
                   Request_Body = ''limit=%14&offset=%00''\<rparr> # cs)"
proof -
  let ?c = "exampleClient (FakeTransport 200 okBody False)"
  let ?E = "(if UseEncryption ?c then SecureEndpoint ?c else Endpoint ?c)"
  have h1: "ParseRequestURI exampleLibrary (?E @ ''/entities/'' @ ''d'' @ ''/_all'')
              = Inr ''https://api.textrazor.com/entities/d/_all'' \<and>
            NewRequest_error exampleLibrary MethodGet ''https://api.textrazor.com/entities/d/_all''
              = None"
    by (simp add: exampleLibrary_def exampleClient_def NewCustomClient_def MethodGet_def
        validHeaderFieldByte_def isUpper_def isLower_def)
  have h2: "ParseRequestURI exampleLibrary (?E @ ''/categories/'' @ ''c'' @ ''/_all'')
              = Inr ''https://api.textrazor.com/categories/c/_all'' \<and>
            NewRequest_error exampleLibrary MethodGet ''https://api.textrazor.com/categories/c/_all''
              = None"
    by (simp add: exampleLibrary_def exampleClient_def NewCustomClient_def MethodGet_def
        validHeaderFieldByte_def isUpper_def isLower_def)
  have q: "''limit='' @ QueryEscape (intstring 20) @ ''&offset='' @ QueryEscape (intstring 0)
             = ''limit=%14&offset=%00''"
    by code_simp
  have k: "apiKey ?c = ''1234567890''" "trace emptyState = []"
    by (simp_all add: exampleClient_def NewCustomClient_def emptyState_def)
  have c1: "\<exists>cs. trace (snd (GetDictionaryEntries exampleLibrary ?c ''d'' 20 0 emptyState))
      = Call_Do \<lparr>Method = ''GET'', URL = ''https://api.textrazor.com/entities/d/_all'',
                   Request_Header = [(''X-Textrazor-Key'', [''1234567890''])],
                   Request_Body = ''limit=%14&offset=%00''\<rparr> # cs"
    using list_parameters_string_of_int [of exampleLibrary ?c "''d''"
        "''https://api.textrazor.com/entities/d/_all''" 20 0 emptyState,
        THEN conjunct1, rule_format, OF h1]
    unfolding q k by simp
  have c2: "\<exists>cs. trace (snd (GetClassifierCategories exampleLibrary ?c ''c'' 20 0 emptyState))
      = Call_Do \<lparr>Method = ''GET'', URL = ''https://api.textrazor.com/categories/c/_all'',
                   Request_Header = [(''X-Textrazor-Key'', [''1234567890''])],
                   Request_Body = ''limit=%14&offset=%00''\<rparr> # cs"
    using list_parameters_string_of_int [of exampleLibrary ?c "''c''" _ 20 0 emptyState
        "''https://api.textrazor.com/categories/c/_all''",
        THEN conjunct2, THEN conjunct1, rule_format, OF h2]
    unfolding q k by simp
  from h1 h2 c1 c2 show ?thesis by blast
qed

end
